theory Spec2Isabelle
  imports Complex_Main "HOL-Library.Char_ord" "HOL-Library.List_Lexorder"
    "HOL-Library.Product_Lexorder"
begin

text \<open>
  A shallow embedding of the quantity take-off pipeline: the resolution of the volume,
  area and length of an element (\<open>quantity_extractor.py\<close>), the unit scale factor
  (\<open>ifc_reader.py\<close>), the grouping of the records into the lines of a bill of
  quantities (\<open>boq_generator.py\<close>) and the lookup of a rate (\<open>cost_estimator.py\<close>).
  The functions keep the names of the source, without the leading underscore of a private
  method. What the libraries return for an element (property sets, geometry, materials)
  is part of the input.
\<close>

section \<open>Python values, strings and arithmetic\<close>

text \<open>
  The exceptions the modelled code can raise or catch. A function of the source that can
  let an exception escape returns \<open>pyerr + 'a\<close>, with \<open>Inl\<close> the exception.
\<close>

datatype pyerr = OverflowError | IndexError | ValueError | RuntimeError | AttributeError

text \<open>
  A Python float: a finite number, an infinity or NaN. The finite values are idealised
  as real numbers (the rounding of a double and the sign of zero are not modelled); the
  range is: a result whose magnitude reaches \<open>2^1024 - 2^970\<close> is not a finite double.
\<close>

datatype pyfloat = Finite real | PosInf | NegInf | NaN

definition float_overflow :: real where
  "float_overflow = 2 ^ 1024 - 2 ^ 970"

text \<open>The float of an arithmetic result: out of the range it is an infinity.\<close>

definition float_of_real :: "real \<Rightarrow> pyfloat" where
  "float_of_real r =
     (if float_overflow \<le> r then PosInf
      else if r \<le> - float_overflow then NegInf
      else Finite r)"

text \<open>\<open>x * p\<close> for a float \<open>x\<close> and a finite float \<open>p\<close>.\<close>

fun float_times :: "pyfloat \<Rightarrow> real \<Rightarrow> pyfloat" where
  "float_times (Finite v) p = float_of_real (v * p)"
| "float_times PosInf p = (if 0 < p then PosInf else if p < 0 then NegInf else NaN)"
| "float_times NegInf p = (if 0 < p then NegInf else if p < 0 then PosInf else NaN)"
| "float_times NaN p = NaN"

text \<open>\<open>x + y\<close> and \<open>x - y\<close> on floats.\<close>

fun float_add :: "pyfloat \<Rightarrow> pyfloat \<Rightarrow> pyfloat" where
  "float_add (Finite a) (Finite b) = float_of_real (a + b)"
| "float_add NaN y = NaN"
| "float_add x NaN = NaN"
| "float_add PosInf NegInf = NaN"
| "float_add NegInf PosInf = NaN"
| "float_add PosInf y = PosInf"
| "float_add x PosInf = PosInf"
| "float_add NegInf y = NegInf"
| "float_add x NegInf = NegInf"

fun float_neg :: "pyfloat \<Rightarrow> pyfloat" where
  "float_neg (Finite a) = Finite (- a)"
| "float_neg PosInf = NegInf"
| "float_neg NegInf = PosInf"
| "float_neg NaN = NaN"

definition float_sub :: "pyfloat \<Rightarrow> pyfloat \<Rightarrow> pyfloat" where
  "float_sub x y = float_add x (float_neg y)"

text \<open>\<open>x > y\<close> on floats: false as soon as one of them is NaN.\<close>

fun float_gt :: "pyfloat \<Rightarrow> pyfloat \<Rightarrow> bool" where
  "float_gt NaN y = False"
| "float_gt x NaN = False"
| "float_gt (Finite a) (Finite b) = (b < a)"
| "float_gt PosInf PosInf = False"
| "float_gt PosInf y = True"
| "float_gt x PosInf = False"
| "float_gt NegInf y = False"
| "float_gt x NegInf = True"

text \<open>\<open>x > 0\<close>\<close>

definition gt_zero :: "pyfloat \<Rightarrow> bool" where
  "gt_zero x = float_gt x (Finite 0)"

text \<open>\<open>sum(xs)\<close>: the additions from the left, starting from 0.\<close>

definition py_sum :: "pyfloat list \<Rightarrow> pyfloat" where
  "py_sum xs = foldl float_add (Finite 0) xs"

text \<open>
  \<open>max(xs)\<close> on a list of three: the first item, replaced by each later item that is
  greater than the maximum so far.
\<close>

definition py_max3 :: "pyfloat \<Rightarrow> pyfloat \<Rightarrow> pyfloat \<Rightarrow> pyfloat" where
  "py_max3 a b c = (let m = (if float_gt b a then b else a) in if float_gt c m then c else m)"

text \<open>
  A value found in a property set or a quantity, as far as \<open>float(v)\<close> and
  \<open>v is None\<close> observe it: \<open>Num x\<close> is any value that \<open>float\<close> converts
  to the float \<open>x\<close> (a float, an int, a bool, a numeric string; \<open>float\<close> accepts
  \<open>'nan'\<close>, \<open>'inf'\<close> and \<open>'1e400'\<close> too, and gives NaN or an infinity),
  \<open>PyNone\<close> is \<open>None\<close>, and \<open>NotNumeric\<close> is any other value on which
  \<open>float\<close> raises \<open>ValueError\<close> or \<open>TypeError\<close> (a label, a list). The
  numbers read from a model are machine numbers, so \<open>float\<close> raises nothing else on
  them.
\<close>

datatype pyval = Num pyfloat | PyNone | NotNumeric

fun py_float :: "pyval \<Rightarrow> pyfloat option" where
  "py_float (Num x) = Some x"
| "py_float PyNone = None"
| "py_float NotNumeric = None"

text \<open>
  \<open>x ** n\<close> on a finite float raises \<open>OverflowError\<close> when the result is out of
  the range.
\<close>

definition py_pow :: "real \<Rightarrow> nat \<Rightarrow> pyerr + real" where
  "py_pow x n = (if float_overflow \<le> \<bar>x ^ n\<bar> then Inl OverflowError else Inr (x ^ n))"

text \<open>\<open>p in s\<close> on strings: \<open>p\<close> occurs in \<open>s\<close> as a contiguous substring.\<close>

fun startswith :: "string \<Rightarrow> string \<Rightarrow> bool" where
  "startswith s [] = True"
| "startswith [] (p # ps) = False"
| "startswith (c # cs) (p # ps) = (c = p \<and> startswith cs ps)"

fun str_contains :: "string \<Rightarrow> string \<Rightarrow> bool" where
  "str_contains p [] = (p = [])"
| "str_contains p (c # cs) = (startswith (c # cs) p \<or> str_contains p cs)"

text \<open>
  \<open>str.lower()\<close> and \<open>str.upper()\<close> on the ASCII letters; other characters are
  left as they are.
\<close>

definition ascii_upper :: string where
  "ascii_upper = ''ABCDEFGHIJKLMNOPQRSTUVWXYZ''"

definition ascii_lower :: string where
  "ascii_lower = ''abcdefghijklmnopqrstuvwxyz''"

definition lower_char :: "char \<Rightarrow> char" where
  "lower_char c = (case map_of (zip ascii_upper ascii_lower) c of Some d \<Rightarrow> d | None \<Rightarrow> c)"

definition upper_char :: "char \<Rightarrow> char" where
  "upper_char c = (case map_of (zip ascii_lower ascii_upper) c of Some d \<Rightarrow> d | None \<Rightarrow> c)"

definition lower :: "string \<Rightarrow> string" where
  "lower s = map lower_char s"

definition upper :: "string \<Rightarrow> string" where
  "upper s = map upper_char s"

text \<open>\<open>s.split(sep)\<close> for a one-character separator: the list is never empty.\<close>

fun split_on :: "char \<Rightarrow> string \<Rightarrow> string list" where
  "split_on sep [] = [[]]"
| "split_on sep (c # cs) =
     (if c = sep then [] # split_on sep cs
      else (case split_on sep cs of
              [] \<Rightarrow> [[c]]
            | p # ps \<Rightarrow> (c # p) # ps))"

text \<open>
  \<open>round(x, nd)\<close>: to the nearest multiple of \<open>10^-nd\<close>, a tie to the even one
  (exact on the reals; the binary representation of a float is not modelled).
\<close>

definition round_half_even :: "real \<Rightarrow> int" where
  "round_half_even x =
     (let f = \<lfloor>x\<rfloor>; d = x - of_int f
      in if d < 1 / 2 then f
         else if 1 / 2 < d then f + 1
         else if even f then f else f + 1)"

definition py_round :: "real \<Rightarrow> nat \<Rightarrow> real" where
  "py_round x nd = of_int (round_half_even (x * 10 ^ nd)) / 10 ^ nd"

text \<open>\<open>round(x, nd)\<close> on a float: an infinity and NaN round to themselves.\<close>

fun float_round :: "pyfloat \<Rightarrow> nat \<Rightarrow> pyfloat" where
  "float_round (Finite v) nd = Finite (py_round v nd)"
| "float_round PosInf nd = PosInf"
| "float_round NegInf nd = NegInf"
| "float_round NaN nd = NaN"

section \<open>The model document, as the extractor observes it\<close>

text \<open>The three measures of a quantity record: the keys \<open>'volume'\<close>, \<open>'area'\<close>, \<open>'length'\<close>.\<close>

datatype qfield = Volume | Area | Length

text \<open>
  A dictionary with at most these three keys, each holding a float: the result of a
  resolution tier. \<open>None\<close> in a field is a key that is absent or holds \<open>None\<close>.
\<close>

record qpartial =
  p_volume :: "pyfloat option"
  p_area :: "pyfloat option"
  p_length :: "pyfloat option"

definition qempty :: qpartial where
  "qempty = \<lparr>p_volume = None, p_area = None, p_length = None\<rparr>"

fun get_field :: "qpartial \<Rightarrow> qfield \<Rightarrow> pyfloat option" where
  "get_field q Volume = p_volume q"
| "get_field q Area = p_area q"
| "get_field q Length = p_length q"

fun set_field :: "qpartial \<Rightarrow> qfield \<Rightarrow> pyfloat \<Rightarrow> qpartial" where
  "set_field q Volume v = q\<lparr>p_volume := Some v\<rparr>"
| "set_field q Area v = q\<lparr>p_area := Some v\<rparr>"
| "set_field q Length v = q\<lparr>p_length := Some v\<rparr>"

text \<open>\<open>all(quantities.get(qty) is None for qty in ['volume', 'area', 'length'])\<close>\<close>

definition all_none :: "qpartial \<Rightarrow> bool" where
  "all_none q = (p_volume q = None \<and> p_area q = None \<and> p_length q = None)"

text \<open>
  An \<open>IfcPhysicalQuantity\<close> reached through \<open>IsDefinedBy\<close>: its class (volume,
  area, length, or another one) and its value attribute.
\<close>

datatype ifc_quantity =
    IfcQuantityVolume pyval
  | IfcQuantityArea pyval
  | IfcQuantityLength pyval
  | IfcQuantityOther

datatype prop_def = IfcElementQuantity "ifc_quantity list" | IfcPropertySet

datatype ifc_rel = IfcRelDefinesByProperties prop_def | IfcRelOther

text \<open>
  The shape \<open>ifcopenshell.geom.create_shape\<close> returns; \<open>None\<close> in a field is a
  call that raises (or returns nothing).
\<close>

record shape =
  geom_volume :: "pyfloat option"
  geom_area :: "pyfloat option"
  geom_bbox :: "(pyfloat \<times> pyfloat \<times> pyfloat \<times> pyfloat \<times> pyfloat \<times> pyfloat) option"

text \<open>
  A material of \<open>get_materials\<close>: one with a \<open>Name\<close> attribute (that may hold
  \<open>None\<close>), one with a \<open>MaterialSelect\<close> whose \<open>Name\<close> is there or not, or
  one with neither.
\<close>

datatype ifc_material =
    MaterialNamed "string option"
  | MaterialSelect "string option option"
  | MaterialOther

text \<open>
  An element of the model. Dictionaries are association lists in iteration order.
  \<open>get_psets\<close>, \<open>get_materials\<close> and \<open>create_shape\<close> are the results of the
  library calls, \<open>None\<close> when the call raises; \<open>IsDefinedBy\<close> is \<open>None\<close> when
  the element has no such attribute. \<open>get_psets\<close> is called with its defaults, so it
  gives the property sets and the quantity sets of the element, by name, in the order of
  \<open>IsDefinedBy\<close>.
\<close>

record element =
  element_id :: int
  GlobalId :: "string option"
  is_a :: string
  Name :: "string option"
  Tag :: "string option"
  PredefinedType :: "string option"
  IsDefinedBy :: "ifc_rel list option"
  get_psets :: "(string \<times> (string \<times> pyval) list) list option"
  create_shape :: "shape option"
  get_materials :: "ifc_material list option"

text \<open>
  The module \<open>ifcopenshell.util.element\<close> has the functions \<open>get_psets\<close>,
  \<open>get_materials\<close> and \<open>get_container\<close>; it has no function \<open>get_qtos\<close>. The
  expression \<open>ifcopenshell.util.element.get_qtos\<close> therefore raises
  \<open>AttributeError\<close> before anything is called (\<open>Inr\<close> would be the function).
\<close>

definition get_qtos :: "pyerr + (element \<Rightarrow> (string \<times> (string \<times> pyval) list) list)" where
  "get_qtos = Inl AttributeError"

text \<open>The dictionary \<open>extract_quantities\<close> returns.\<close>

record quantity_record =
  q_element_id :: int
  q_global_id :: "string option"
  q_type :: string
  q_name :: "string option"
  q_tag :: "string option"
  q_volume :: "pyfloat option"
  q_area :: "pyfloat option"
  q_length :: "pyfloat option"
  q_count :: "int option"
  q_material :: "string option"
  q_storey :: "string option"
  q_category :: string

section \<open>Quantity extraction\<close>

text \<open>The extractor: its scale factor is a finite float.\<close>

record quantity_extractor =
  unit_scale_factor :: real

text \<open>The fixed name to field table of both declared-quantity tiers.\<close>

definition quantity_mappings :: "(string \<times> qfield) list" where
  "quantity_mappings =
     [(''NetVolume'', Volume), (''GrossVolume'', Volume), (''Volume'', Volume),
      (''NetArea'', Area), (''GrossArea'', Area), (''Area'', Area),
      (''NetSideArea'', Area), (''TotalSurfaceArea'', Area),
      (''Length'', Length), (''NetLength'', Length), (''GrossLength'', Length),
      (''Perimeter'', Length), (''Width'', Length), (''Height'', Length),
      (''Depth'', Length)]"

text \<open>\<open>if quantities.get(t) is None: quantities[t] = value\<close>\<close>

definition store_first :: "qpartial \<Rightarrow> qfield \<Rightarrow> pyfloat \<Rightarrow> qpartial" where
  "store_first q t v = (if get_field q t = None then set_field q t v else q)"

text \<open>One round of the loop over the items of a quantity or property dictionary.\<close>

fun scan_item :: "qpartial \<Rightarrow> string \<times> pyval \<Rightarrow> qpartial" where
  "scan_item q (qty_name, qty_value) =
     (case map_of quantity_mappings qty_name of
        None \<Rightarrow> q
      | Some quantity_type \<Rightarrow>
          (case py_float qty_value of
             None \<Rightarrow> q
           | Some v \<Rightarrow> store_first q quantity_type v))"

definition scan_dict :: "qpartial \<Rightarrow> (string \<times> pyval) list \<Rightarrow> qpartial" where
  "scan_dict q d = foldl scan_item q d"

definition scan_sets :: "qpartial \<Rightarrow> (string \<times> (string \<times> pyval) list) list \<Rightarrow> qpartial" where
  "scan_sets q sets = foldl (\<lambda>acc (set_name, d). scan_dict acc d) q sets"

text \<open>One round of the loop over \<open>prop_def.Quantities\<close> (the direct access).\<close>

fun scan_quantity :: "qpartial \<Rightarrow> ifc_quantity \<Rightarrow> qpartial" where
  "scan_quantity q (IfcQuantityVolume x) =
     (if x \<noteq> PyNone then (case py_float x of None \<Rightarrow> q | Some v \<Rightarrow> store_first q Volume v)
      else q)"
| "scan_quantity q (IfcQuantityArea x) =
     (if x \<noteq> PyNone then (case py_float x of None \<Rightarrow> q | Some v \<Rightarrow> store_first q Area v)
      else q)"
| "scan_quantity q (IfcQuantityLength x) =
     (if x \<noteq> PyNone then (case py_float x of None \<Rightarrow> q | Some v \<Rightarrow> store_first q Length v)
      else q)"
| "scan_quantity q IfcQuantityOther = q"

fun scan_rel :: "qpartial \<Rightarrow> ifc_rel \<Rightarrow> qpartial" where
  "scan_rel q (IfcRelDefinesByProperties (IfcElementQuantity qs)) = foldl scan_quantity q qs"
| "scan_rel q (IfcRelDefinesByProperties IfcPropertySet) = q"
| "scan_rel q IfcRelOther = q"

text \<open>
  Tier 1, \<open>_extract_ifc_element_quantities\<close>: the quantity sets of \<open>get_qtos\<close>,
  and, when they gave nothing, the quantities reached through \<open>IsDefinedBy\<close>. Both
  are in one \<open>try\<close>: the exception of the first is caught after the second, and
  leaves the dictionary as it is then, empty.
\<close>

definition extract_ifc_element_quantities :: "element \<Rightarrow> qpartial" where
  "extract_ifc_element_quantities e =
     (case get_qtos of
        Inl err \<Rightarrow> qempty
      | Inr util_get_qtos \<Rightarrow>
          (let quantities = scan_sets qempty (util_get_qtos e)
           in if all_none quantities
              then (case IsDefinedBy e of
                      None \<Rightarrow> quantities
                    | Some rels \<Rightarrow> foldl scan_rel quantities rels)
              else quantities))"

text \<open>
  Tier 2, \<open>_extract_qto_properties\<close>: the property sets whose name contains
  \<open>Qto\<close> or \<open>Quantities\<close>.
\<close>

definition signals_quantities :: "string \<Rightarrow> bool" where
  "signals_quantities pset_name =
     (str_contains ''Qto'' pset_name \<or> str_contains ''Quantities'' pset_name)"

definition extract_qto_properties :: "element \<Rightarrow> qpartial" where
  "extract_qto_properties e =
     (case get_psets e of
        None \<Rightarrow> qempty
      | Some psets \<Rightarrow>
          foldl (\<lambda>acc (pset_name, props).
                   if signals_quantities pset_name then scan_dict acc props else acc)
            qempty psets)"

text \<open>
  Tier 3, \<open>_calculate_geometric_quantities\<close>: each measure is computed in a
  \<open>try\<close> of its own and kept only when it is greater than 0; the length only for
  beams and columns, as the longest side of the bounding box.
\<close>

definition positive_only :: "pyfloat option \<Rightarrow> pyfloat option" where
  "positive_only r = (case r of None \<Rightarrow> None | Some v \<Rightarrow> if gt_zero v then Some v else None)"

definition bbox_length ::
  "(pyfloat \<times> pyfloat \<times> pyfloat \<times> pyfloat \<times> pyfloat \<times> pyfloat) \<Rightarrow> pyfloat" where
  "bbox_length b =
     (case b of (x0, y0, z0, x1, y1, z1) \<Rightarrow>
        py_max3 (float_sub x1 x0) (float_sub y1 y0) (float_sub z1 z0))"

definition calculate_geometric_quantities :: "element \<Rightarrow> qpartial" where
  "calculate_geometric_quantities e =
     (case create_shape e of
        None \<Rightarrow> qempty
      | Some geometry \<Rightarrow>
          \<lparr>p_volume = positive_only (geom_volume geometry),
           p_area = positive_only (geom_area geometry),
           p_length =
             (if is_a e \<in> set [''IfcBeam'', ''IfcColumn'']
              then positive_only (map_option bbox_length (geom_bbox geometry))
              else None)\<rparr>)"

text \<open>\<open>_get_category\<close>: the type, with the predefined type as a suffix when there is one.\<close>

definition get_category :: "element \<Rightarrow> string" where
  "get_category e =
     (case PredefinedType e of
        None \<Rightarrow> is_a e
      | Some predefined_type \<Rightarrow>
          if predefined_type \<noteq> [] then is_a e @ ''_'' @ predefined_type else is_a e)"

text \<open>\<open>_extract_material\<close>: the name of the first material that has one to give.\<close>

fun first_material :: "ifc_material list \<Rightarrow> string option" where
  "first_material [] = None"
| "first_material (MaterialNamed n # ms) = n"
| "first_material (MaterialSelect (Some n) # ms) = n"
| "first_material (MaterialSelect None # ms) = first_material ms"
| "first_material (MaterialOther # ms) = first_material ms"

definition extract_material :: "element \<Rightarrow> string option" where
  "extract_material e = (case get_materials e of None \<Rightarrow> None | Some ms \<Rightarrow> first_material ms)"

text \<open>
  \<open>quantities.update(qto_quantities)\<close> and the loop
  \<open>if quantities.get(key) is None and value is not None: quantities[key] = value\<close>.
\<close>

definition dict_update :: "qpartial \<Rightarrow> qpartial \<Rightarrow> qpartial" where
  "dict_update q new =
     \<lparr>p_volume = (case p_volume new of Some v \<Rightarrow> Some v | None \<Rightarrow> p_volume q),
      p_area = (case p_area new of Some v \<Rightarrow> Some v | None \<Rightarrow> p_area q),
      p_length = (case p_length new of Some v \<Rightarrow> Some v | None \<Rightarrow> p_length q)\<rparr>"

definition fill_absent :: "qpartial \<Rightarrow> qpartial \<Rightarrow> qpartial" where
  "fill_absent q new =
     \<lparr>p_volume = (case p_volume q of Some v \<Rightarrow> Some v | None \<Rightarrow> p_volume new),
      p_area = (case p_area q of Some v \<Rightarrow> Some v | None \<Rightarrow> p_area new),
      p_length = (case p_length q of Some v \<Rightarrow> Some v | None \<Rightarrow> p_length new)\<rparr>"

text \<open>Steps 1 to 3 of \<open>extract_quantities\<close>: the measures in model units.\<close>

definition resolve_raw :: "element \<Rightarrow> qpartial" where
  "resolve_raw e =
     (let qto_quantities = extract_ifc_element_quantities e;
          q1 = (if \<not> all_none qto_quantities then dict_update qempty qto_quantities
                else qempty);
          q2 = (if all_none qto_quantities \<or> all_none q1
                then (let qto_properties = extract_qto_properties e
                      in if \<not> all_none qto_properties then fill_absent q1 qto_properties
                         else q1)
                else q1);
          q3 = (if all_none q2 then fill_absent q2 (calculate_geometric_quantities e)
                else q2)
      in q3)"

text \<open>The unit conversion: \<open>value * scale ** k\<close>, the power taken only for a value that is there.\<close>

definition convert :: "pyfloat option \<Rightarrow> real \<Rightarrow> nat \<Rightarrow> pyerr + pyfloat option" where
  "convert x scale k =
     (case x of
        None \<Rightarrow> Inr None
      | Some v \<Rightarrow>
          (case py_pow scale k of
             Inl err \<Rightarrow> Inl err
           | Inr p \<Rightarrow> Inr (Some (float_times v p))))"

definition extract_quantities ::
  "quantity_extractor \<Rightarrow> element \<Rightarrow> string option \<Rightarrow> pyerr + quantity_record" where
  "extract_quantities self e storey =
     (let raw = resolve_raw e
      in case convert (p_volume raw) (unit_scale_factor self) 3 of
           Inl err \<Rightarrow> Inl err
         | Inr volume \<Rightarrow>
             (case convert (p_area raw) (unit_scale_factor self) 2 of
                Inl err \<Rightarrow> Inl err
              | Inr area \<Rightarrow>
                  Inr \<lparr>q_element_id = element_id e,
                       q_global_id = GlobalId e,
                       q_type = is_a e,
                       q_name = Name e,
                       q_tag = Tag e,
                       q_volume = volume,
                       q_area = area,
                       q_length =
                         map_option (\<lambda>v. float_times v (unit_scale_factor self))
                           (p_length raw),
                       q_count = Some 1,
                       q_material = extract_material e,
                       q_storey = storey,
                       q_category = get_category e\<rparr>))"

text \<open>
  \<open>extract_all_quantities\<close>: the loop over the elements, each in a \<open>try\<close> of its
  own. The storey function is optional and its exception is swallowed (\<open>Inl\<close> is the
  exception); a failed extraction is logged and the element skipped.
\<close>

definition storey_of :: "(element \<Rightarrow> pyerr + string option) option \<Rightarrow> element \<Rightarrow> string option" where
  "storey_of get_storey_fn e =
     (case get_storey_fn of
        None \<Rightarrow> None
      | Some f \<Rightarrow> (case f e of Inl err \<Rightarrow> None | Inr s \<Rightarrow> s))"

fun extract_loop ::
  "quantity_extractor \<Rightarrow> (element \<Rightarrow> pyerr + string option) option \<Rightarrow>
   quantity_record list \<Rightarrow> element list \<Rightarrow> quantity_record list" where
  "extract_loop self fn all_quantities [] = all_quantities"
| "extract_loop self fn all_quantities (e # es) =
     (case extract_quantities self e (storey_of fn e) of
        Inl err \<Rightarrow> extract_loop self fn all_quantities es
      | Inr quantities \<Rightarrow> extract_loop self fn (all_quantities @ [quantities]) es)"

definition extract_all_quantities ::
  "quantity_extractor \<Rightarrow> element list \<Rightarrow> (element \<Rightarrow> pyerr + string option) option \<Rightarrow>
   quantity_record list" where
  "extract_all_quantities self elements get_storey_fn =
     extract_loop self get_storey_fn [] elements"

section \<open>The unit scale factor\<close>

text \<open>
  A unit of \<open>UnitsInContext.Units\<close>, by its class. \<open>IfcSIUnit\<close> (unit type, prefix,
  name), \<open>IfcConversionBasedUnit\<close> and \<open>IfcContextDependentUnit\<close> (unit type, name)
  are the subtypes of \<open>IfcNamedUnit\<close>; derived and monetary units are not named units.
\<close>

datatype ifc_unit =
    IfcSIUnit string "string option" string
  | IfcConversionBasedUnit string string
  | IfcContextDependentUnit string string
  | IfcUnitOther

record ifc_project =
  UnitsInContext :: "ifc_unit list option"

text \<open>
  The reader: \<open>ifc_file\<close> is \<open>None\<close> before a file is loaded, and otherwise gives
  the projects \<open>by_type('IfcProject')\<close> finds.
\<close>

record ifc_reader =
  ifc_file :: "ifc_project list option"

text \<open>\<open>unit.is_a('IfcNamedUnit')\<close>, with the unit type and the name of such a unit.\<close>

fun named_unit :: "ifc_unit \<Rightarrow> (string \<times> string) option" where
  "named_unit (IfcSIUnit ut pre nm) = Some (ut, nm)"
| "named_unit (IfcConversionBasedUnit ut nm) = Some (ut, nm)"
| "named_unit (IfcContextDependentUnit ut nm) = Some (ut, nm)"
| "named_unit IfcUnitOther = None"

text \<open>The first loop over the units: a named length unit whose name holds METER or METRE.\<close>

fun scan_named_units :: "ifc_unit list \<Rightarrow> real option" where
  "scan_named_units [] = None"
| "scan_named_units (u # us) =
     (case named_unit u of
        None \<Rightarrow> scan_named_units us
      | Some (ut, nm) \<Rightarrow>
          if ut = ''LENGTHUNIT'' \<and> nm \<noteq> [] \<and>
             (str_contains ''METER'' (upper nm) \<or> str_contains ''METRE'' (upper nm))
          then (if str_contains ''MILLI'' (upper nm) then Some (1 / 1000)
                else if str_contains ''CENTI'' (upper nm) then Some (1 / 100)
                else Some 1)
          else scan_named_units us)"

text \<open>
  The second loop: an \<open>IfcSIUnit\<close> of length, by its prefix (\<open>str(None).upper()\<close> is
  \<open>NONE\<close>).
\<close>

fun scan_si_units :: "ifc_unit list \<Rightarrow> real option" where
  "scan_si_units [] = None"
| "scan_si_units (IfcSIUnit ut pre nm # us) =
     (if ut = ''LENGTHUNIT''
      then (let prefix = upper (case pre of None \<Rightarrow> ''None'' | Some p \<Rightarrow> p)
            in if prefix = ''MILLI'' then Some (1 / 1000)
               else if prefix = ''CENTI'' then Some (1 / 100)
               else Some 1)
      else scan_si_units us)"
| "scan_si_units (u # us) = scan_si_units us"

definition get_unit_scale_factor :: "ifc_reader \<Rightarrow> pyerr + real" where
  "get_unit_scale_factor self =
     (case ifc_file self of
        None \<Rightarrow> Inl RuntimeError
      | Some projects \<Rightarrow>
          (case projects of
             [] \<Rightarrow> Inr (1 / 1000)
           | project # _ \<Rightarrow>
               (case UnitsInContext project of
                  None \<Rightarrow> Inr (1 / 1000)
                | Some units \<Rightarrow>
                    (case scan_named_units units of
                       Some f \<Rightarrow> Inr f
                     | None \<Rightarrow>
                         (case scan_si_units units of
                            Some f \<Rightarrow> Inr f
                          | None \<Rightarrow> Inr (1 / 1000))))))"

section \<open>The bill of quantities\<close>

text \<open>The unit of measure of a line: \<open>m3\<close>, \<open>m2\<close>, \<open>m\<close> and \<open>No.\<close> in the source.\<close>

datatype uom = CubicMetre | SquareMetre | Metre | Number

record boq_item =
  b_item_no :: "int option"
  b_element_type :: string
  b_description :: string
  b_unit :: uom
  b_quantity :: pyfloat
  b_storey :: string
  b_material :: string
  b_volume_m3 :: "pyfloat option"
  b_area_m2 :: "pyfloat option"
  b_length_m :: "pyfloat option"
  b_count :: int

text \<open>
  A \<open>pandas.DataFrame\<close> of BOQ lines: the labels of its columns and its rows. A row
  holds a cell for every column a line can have; the labels say which columns exist.
\<close>

record dataframe =
  df_columns :: "string list"
  df_rows :: "boq_item list"

definition empty_frame :: dataframe where
  "empty_frame = \<lparr>df_columns = [], df_rows = []\<rparr>"

text \<open>\<open>df.empty\<close>: an axis of length zero.\<close>

definition df_empty :: "dataframe \<Rightarrow> bool" where
  "df_empty df = (df_columns df = [] \<or> df_rows df = [])"

text \<open>The keys of the dictionary \<open>_create_boq_item\<close> builds, in their order.\<close>

definition boq_item_keys :: "string list" where
  "boq_item_keys =
     [''item_no'', ''element_type'', ''description'', ''unit'', ''quantity'', ''storey'',
      ''material'', ''volume_m3'', ''area_m2'', ''length_m'', ''count'']"

text \<open>\<open>x or d\<close> for an optional string: \<open>None\<close> and the empty string are falsy.\<close>

definition or_else :: "string option \<Rightarrow> string \<Rightarrow> string" where
  "or_else x d = (case x of None \<Rightarrow> d | Some s \<Rightarrow> if s = [] then d else s)"

definition group_key_of :: "string \<Rightarrow> quantity_record \<Rightarrow> string" where
  "group_key_of grouping_level qty =
     (if grouping_level = ''type'' then q_type qty
      else if grouping_level = ''storey'' then or_else (q_storey qty) ''Unknown''
      else if grouping_level = ''material'' then or_else (q_material qty) ''Unknown''
      else if grouping_level = ''all''
      then q_type qty @ ''|'' @ or_else (q_storey qty) ''Unknown'' @ ''|'' @
           or_else (q_material qty) ''Unknown''
      else q_type qty)"

text \<open>\<open>grouped[key].append(qty)\<close> on a dictionary that keeps the order of first insertion.\<close>

fun group_append ::
  "(string \<times> quantity_record list) list \<Rightarrow> string \<Rightarrow> quantity_record \<Rightarrow>
   (string \<times> quantity_record list) list" where
  "group_append [] k qty = [(k, [qty])]"
| "group_append ((k', qs) # rest) k qty =
     (if k' = k then (k', qs @ [qty]) # rest else (k', qs) # group_append rest k qty)"

definition group_quantities ::
  "quantity_record list \<Rightarrow> string \<Rightarrow> (string \<times> quantity_record list) list" where
  "group_quantities quantities grouping_level =
     foldl (\<lambda>grouped qty. group_append grouped (group_key_of grouping_level qty) qty)
       [] quantities"

text \<open>\<open>element_type.replace('Ifc', '')\<close>: every occurrence goes, left to right.\<close>

fun remove_Ifc :: "string \<Rightarrow> string" where
  "remove_Ifc [] = []"
| "remove_Ifc (c # cs) =
     (if startswith (c # cs) ''Ifc'' then remove_Ifc (drop 2 cs) else c # remove_Ifc cs)"

definition create_description :: "string \<Rightarrow> string \<Rightarrow> string" where
  "create_description element_type material =
     (let type_name = (if startswith element_type ''Ifc'' then remove_Ifc element_type
                       else element_type)
      in if material \<noteq> [] \<and> material \<notin> set [''Unknown'', ''Not Specified'']
         then type_name @ '' - '' @ material
         else type_name)"

definition volume_elements :: "string list" where
  "volume_elements = [''IfcWall'', ''IfcSlab'', ''IfcFooting'', ''IfcColumn'', ''IfcBeam'']"

definition area_elements :: "string list" where
  "area_elements = [''IfcRoof'', ''IfcCurtainWall'', ''IfcRailing'']"

definition length_elements :: "string list" where
  "length_elements = [''IfcBeam'', ''IfcPile'']"

text \<open>\<open>element_type.split('_')[0]\<close>\<close>

definition element_base :: "string \<Rightarrow> string" where
  "element_base element_type =
     (case split_on (CHR ''_'') element_type of [] \<Rightarrow> [] | b # _ \<Rightarrow> b)"

definition determine_primary_quantity ::
  "pyfloat \<Rightarrow> pyfloat \<Rightarrow> pyfloat \<Rightarrow> int \<Rightarrow> string \<Rightarrow> uom \<times> pyfloat" where
  "determine_primary_quantity volume area len cnt element_type =
     (if element_base element_type \<in> set volume_elements \<and> gt_zero volume
      then (CubicMetre, volume)
      else if element_base element_type \<in> set area_elements \<and> gt_zero area
      then (SquareMetre, area)
      else if element_base element_type \<in> set length_elements \<and> gt_zero len
      then (Metre, len)
      else if gt_zero volume then (CubicMetre, volume)
      else if gt_zero area then (SquareMetre, area)
      else if gt_zero len then (Metre, len)
      else (Number, Finite (of_int cnt)))"

text \<open>\<open>sum(item.get(k, 0) or 0 for item in items)\<close> and \<open>sum(item.get('count', 1) ...)\<close>\<close>

definition or_zero :: "pyfloat option \<Rightarrow> pyfloat" where
  "or_zero x = (case x of None \<Rightarrow> Finite 0 | Some v \<Rightarrow> v)"

definition total_of ::
  "(quantity_record \<Rightarrow> pyfloat option) \<Rightarrow> quantity_record list \<Rightarrow> pyfloat" where
  "total_of field items = py_sum (map (\<lambda>item. or_zero (field item)) items)"

definition total_count_of :: "quantity_record list \<Rightarrow> int" where
  "total_count_of items =
     sum_list (map (\<lambda>item. case q_count item of None \<Rightarrow> 1 | Some c \<Rightarrow> c) items)"

text \<open>
  The type, storey and material of a line: from the parts of a key that holds a bar, and
  otherwise from the first record of the group (\<open>items[0]\<close> raises \<open>IndexError\<close> on
  an empty group).
\<close>

definition line_labels ::
  "string \<Rightarrow> quantity_record list \<Rightarrow> string \<Rightarrow> pyerr + (string \<times> string \<times> string)" where
  "line_labels group_key items grouping_level =
     (if CHR ''|'' \<in> set group_key
      then (let parts = split_on (CHR ''|'') group_key
            in Inr (if 0 < length parts then parts ! 0 else ''Unknown'',
                    if 1 < length parts then parts ! 1 else ''Unknown'',
                    if 2 < length parts then parts ! 2 else ''Unknown''))
      else (case items of
              [] \<Rightarrow> Inl IndexError
            | first_item # _ \<Rightarrow>
                Inr (q_type first_item,
                     if grouping_level = ''storey''
                     then (if group_key \<noteq> ''Unknown'' then group_key else ''Not Specified'')
                     else or_else (q_storey first_item) ''Not Specified'',
                     or_else (q_material first_item) ''Not Specified'')))"

definition create_boq_item ::
  "string \<Rightarrow> quantity_record list \<Rightarrow> string \<Rightarrow> pyerr + boq_item" where
  "create_boq_item group_key items grouping_level =
     (case line_labels group_key items grouping_level of
        Inl err \<Rightarrow> Inl err
      | Inr (element_type, storey, material) \<Rightarrow>
          (let total_volume = total_of q_volume items;
               total_area = total_of q_area items;
               total_length = total_of q_length items;
               total_count = total_count_of items;
               uq = determine_primary_quantity total_volume total_area total_length
                      total_count element_type
           in Inr \<lparr>b_item_no = None,
                   b_element_type = element_type,
                   b_description = create_description element_type material,
                   b_unit = fst uq,
                   b_quantity = float_round (snd uq) 3,
                   b_storey = storey,
                   b_material = material,
                   b_volume_m3 = (if gt_zero total_volume
                                  then Some (float_round total_volume 3) else None),
                   b_area_m2 = (if gt_zero total_area
                                then Some (float_round total_area 3) else None),
                   b_length_m = (if gt_zero total_length
                                 then Some (float_round total_length 3) else None),
                   b_count = total_count\<rparr>))"

text \<open>The loop of \<open>generate_boq\<close> over the groups; an exception ends it.\<close>

fun create_items ::
  "(string \<times> quantity_record list) list \<Rightarrow> string \<Rightarrow> pyerr + boq_item list" where
  "create_items [] grouping_level = Inr []"
| "create_items ((group_key, items) # rest) grouping_level =
     (case create_boq_item group_key items grouping_level of
        Inl err \<Rightarrow> Inl err
      | Inr boq_item \<Rightarrow>
          (case create_items rest grouping_level of
             Inl err \<Rightarrow> Inl err
           | Inr others \<Rightarrow> Inr (boq_item # others)))"

text \<open>The cell of a line in one of the two columns the table is sorted by.\<close>

definition sort_cell :: "boq_item \<Rightarrow> string \<Rightarrow> string" where
  "sort_cell row col = (if col = ''element_type'' then b_element_type row else b_storey row)"

definition column_order :: "string list" where
  "column_order =
     [''item_no'', ''element_type'', ''description'', ''unit'', ''quantity'', ''storey'',
      ''material'']"

definition generate_boq :: "quantity_record list \<Rightarrow> string \<Rightarrow> pyerr + dataframe" where
  "generate_boq quantities grouping_level =
     (if quantities = [] then Inr empty_frame
      else (case create_items (group_quantities quantities grouping_level) grouping_level of
              Inl err \<Rightarrow> Inl err
            | Inr boq_items \<Rightarrow>
                (let cols = (if boq_items = [] then [] else boq_item_keys);
                     available_columns = filter (\<lambda>col. col \<in> set cols) column_order;
                     remaining_columns = filter (\<lambda>col. col \<notin> set available_columns) cols;
                     sort_columns =
                       (if ''element_type'' \<in> set cols then [''element_type''] else []) @
                       (if ''storey'' \<in> set cols then [''storey''] else [])
                 in Inr \<lparr>df_columns = available_columns @ remaining_columns,
                         df_rows =
                           (if sort_columns \<noteq> []
                            then sort_key (\<lambda>row. map (sort_cell row) sort_columns) boq_items
                            else boq_items)\<rparr>)))"

text \<open>
  \<open>add_item_numbers\<close>: \<open>df.insert(0, 'item_no', range(1, len(df) + 1))\<close>, which
  raises \<open>ValueError\<close> when the table already has a column of that label.
\<close>

definition number_rows :: "boq_item list \<Rightarrow> boq_item list" where
  "number_rows rows =
     map (\<lambda>(i, row). row\<lparr>b_item_no := Some i\<rparr>) (zip [1..int (length rows)] rows)"

definition df_insert_item_no :: "dataframe \<Rightarrow> pyerr + dataframe" where
  "df_insert_item_no df =
     (if ''item_no'' \<in> set (df_columns df) then Inl ValueError
      else Inr \<lparr>df_columns = ''item_no'' # df_columns df,
                df_rows = number_rows (df_rows df)\<rparr>)"

definition add_item_numbers :: "dataframe \<Rightarrow> pyerr + dataframe" where
  "add_item_numbers df = (if df_empty df then Inr df else df_insert_item_no df)"

text \<open>\<open>get_summary\<close>: a dictionary, empty for an empty table.\<close>

datatype summary_value = SInt int | SFloat pyfloat | SList "string list"

definition unique :: "string list \<Rightarrow> string list" where
  "unique xs = rev (remdups (rev xs))"

text \<open>\<open>df[col].sum()\<close>: the cells that hold \<open>None\<close> or NaN are skipped.\<close>

definition column_sum ::
  "dataframe \<Rightarrow> string \<Rightarrow> (boq_item \<Rightarrow> pyfloat option) \<Rightarrow> pyfloat" where
  "column_sum df col cell =
     (if col \<in> set (df_columns df)
      then py_sum (filter (\<lambda>x. x \<noteq> NaN) (List.map_filter cell (df_rows df)))
      else Finite 0)"

definition get_summary :: "dataframe \<Rightarrow> (string \<times> summary_value) list" where
  "get_summary df =
     (if df_empty df then []
      else [(''total_items'', SInt (int (length (df_rows df)))),
            (''total_volume_m3'', SFloat (column_sum df ''volume_m3'' b_volume_m3)),
            (''total_area_m2'', SFloat (column_sum df ''area_m2'' b_area_m2)),
            (''total_length_m'', SFloat (column_sum df ''length_m'' b_length_m)),
            (''total_count'',
               SInt (if ''count'' \<in> set (df_columns df) then sum_list (map b_count (df_rows df))
                     else 0)),
            (''element_types'',
               SList (if ''element_type'' \<in> set (df_columns df)
                      then unique (map b_element_type (df_rows df)) else []))])"

section \<open>The cost estimator\<close>

text \<open>
  The rate table: element type to (material key or \<open>default\<close>) to rate, both levels in
  the order of the entries of the file.
\<close>

type_synonym rate_table = "(string \<times> (string \<times> real) list) list"

text \<open>The loop of \<open>get_rate\<close> over the entries of a type, returning at the first match.\<close>

fun scan_rates :: "string \<Rightarrow> (string \<times> real) list \<Rightarrow> real option" where
  "scan_rates material_lower [] = None"
| "scan_rates material_lower ((mat_key, rate) # rest) =
     (if str_contains (lower mat_key) material_lower \<and> mat_key \<noteq> ''default'' then Some rate
      else scan_rates material_lower rest)"

definition get_rate :: "rate_table \<Rightarrow> string \<Rightarrow> string option \<Rightarrow> real" where
  "get_rate rates element_type material =
     (let type_rates = (case map_of rates element_type of None \<Rightarrow> [] | Some tr \<Rightarrow> tr)
      in if type_rates = [] then 0
         else (case (case material of
                       None \<Rightarrow> None
                     | Some m \<Rightarrow> if m \<noteq> [] then scan_rates (lower m) type_rates else None) of
                 Some rate \<Rightarrow> rate
               | None \<Rightarrow> (case map_of type_rates ''default'' of None \<Rightarrow> 0 | Some r \<Rightarrow> r)))"

section \<open>Notions the properties are stated with\<close>

text \<open>
  The items of all sets, in iteration order, and the first value per field that the
  fixed table maps to the field and \<open>float\<close> accepts.
\<close>

definition qto_items :: "(string \<times> (string \<times> pyval) list) list \<Rightarrow> (string \<times> pyval) list" where
  "qto_items sets = concat (map snd sets)"

definition valid_values :: "qfield \<Rightarrow> (string \<times> pyval) list \<Rightarrow> pyfloat list" where
  "valid_values f items =
     List.map_filter
       (\<lambda>(n, x). if map_of quantity_mappings n = Some f then py_float x else None) items"

definition first_valid :: "qfield \<Rightarrow> (string \<times> pyval) list \<Rightarrow> pyfloat option" where
  "first_valid f items = (case valid_values f items of [] \<Rightarrow> None | v # _ \<Rightarrow> Some v)"

text \<open>The power of the scale factor that converts a field to metres.\<close>

fun exponent :: "qfield \<Rightarrow> nat" where
  "exponent Volume = 3"
| "exponent Area = 2"
| "exponent Length = 1"

text \<open>The three measures of a record, and a tier's result converted to metres.\<close>

definition measures :: "quantity_record \<Rightarrow> qpartial" where
  "measures r = \<lparr>p_volume = q_volume r, p_area = q_area r, p_length = q_length r\<rparr>"

definition in_metres :: "real \<Rightarrow> qpartial \<Rightarrow> qpartial" where
  "in_metres s q =
     \<lparr>p_volume = map_option (\<lambda>v. float_times v (s ^ 3)) (p_volume q),
      p_area = map_option (\<lambda>v. float_times v (s ^ 2)) (p_area q),
      p_length = map_option (\<lambda>v. float_times v s) (p_length q)\<rparr>"

text \<open>The measures of the record an extraction returned, if it returned one.\<close>

definition returned_measures :: "pyerr + quantity_record \<Rightarrow> qpartial option" where
  "returned_measures res = (case res of Inl err \<Rightarrow> None | Inr r \<Rightarrow> Some (measures r))"

text \<open>The two powers \<open>extract_quantities\<close> can take are within the float range.\<close>

definition scale_in_range :: "quantity_extractor \<Rightarrow> bool" where
  "scale_in_range self =
     (\<bar>unit_scale_factor self ^ 2\<bar> < float_overflow \<and> \<bar>unit_scale_factor self ^ 3\<bar> < float_overflow)"

text \<open>The invariant of a measure that is there: a finite float that is not negative.\<close>

fun finite_nonneg :: "pyfloat \<Rightarrow> bool" where
  "finite_nonneg (Finite v) = (0 \<le> v \<and> v < float_overflow)"
| "finite_nonneg PosInf = False"
| "finite_nonneg NegInf = False"
| "finite_nonneg NaN = False"

text \<open>One round of the loop of \<open>extract_all_quantities\<close>: the record, or nothing on an exception.\<close>

definition attempt ::
  "quantity_extractor \<Rightarrow> (element \<Rightarrow> pyerr + string option) option \<Rightarrow> element \<Rightarrow>
   quantity_record option" where
  "attempt self fn e =
     (case extract_quantities self e (storey_of fn e) of Inl err \<Rightarrow> None | Inr r \<Rightarrow> Some r)"

text \<open>
  Generating the table and numbering its lines, as the callers of \<open>add_item_numbers\<close>
  do: \<open>boq_df = boq_gen.generate_boq(...); boq_df = boq_gen.add_item_numbers(boq_df)\<close>.
\<close>

definition numbered_boq :: "quantity_record list \<Rightarrow> string \<Rightarrow> pyerr + dataframe" where
  "numbered_boq quantities grouping_level =
     (case generate_boq quantities grouping_level of
        Inl err \<Rightarrow> Inl err
      | Inr df \<Rightarrow> add_item_numbers df)"

text \<open>
  The lookup priority of a rate in the words of the specification: the first entry, in
  the order of the table, whose key lower-cased occurs in the material lower-cased and is
  not \<open>default\<close>; else the \<open>default\<close> entry; else 0. A material is given when it
  is neither \<open>None\<close> nor empty.
\<close>

definition first_material_match :: "(string \<times> real) list \<Rightarrow> string \<Rightarrow> (string \<times> real) option" where
  "first_material_match type_rates m =
     find (\<lambda>(mat_key, rate). str_contains (lower mat_key) (lower m) \<and> mat_key \<noteq> ''default'')
       type_rates"

definition rate_by_priority :: "(string \<times> real) list \<Rightarrow> string option \<Rightarrow> real" where
  "rate_by_priority type_rates material =
     (case (case material of
              None \<Rightarrow> None
            | Some m \<Rightarrow> if m = [] then None else first_material_match type_rates m) of
        Some (mat_key, rate) \<Rightarrow> rate
      | None \<Rightarrow> (case map_of type_rates ''default'' of Some rate \<Rightarrow> rate | None \<Rightarrow> 0))"

text \<open>The rate table of the specification's example.\<close>

definition example_rates :: rate_table where
  "example_rates = [(''IfcWall'', [(''Concrete'', 50), (''default'', 10)])]"

text \<open>A file whose project declares the SI unit millimetre as its length unit.\<close>

definition mm_reader :: ifc_reader where
  "mm_reader =
     \<lparr>ifc_file = Some [\<lparr>UnitsInContext =
                           Some [IfcSIUnit ''PLANEANGLEUNIT'' None ''RADIAN'',
                                 IfcSIUnit ''LENGTHUNIT'' (Some ''MILLI'') ''METRE'']\<rparr>]\<rparr>"

subsection \<open>Example inputs\<close>

text \<open>
  A wall with an \<open>IfcElementQuantity\<close> that states a net volume of 16, defined after
  a property set \<open>MyQuantities\<close> whose \<open>NetVolume\<close> is 99, in a model whose unit
  is half a metre.
\<close>

definition half_extractor :: quantity_extractor where
  "half_extractor = \<lparr>unit_scale_factor = 1 / 2\<rparr>"

definition authoritative_wall :: element where
  "authoritative_wall =
     \<lparr>element_id = 1, GlobalId = Some ''2O2Fr$t4X7Zf8NOew3FLOH'', is_a = ''IfcWall'',
      Name = Some ''Wall-001'', Tag = None, PredefinedType = None,
      IsDefinedBy = Some [IfcRelDefinesByProperties IfcPropertySet,
                          IfcRelDefinesByProperties
                            (IfcElementQuantity [IfcQuantityVolume (Num (Finite 16))])],
      get_psets = Some [(''MyQuantities'',
                          [(''id'', Num (Finite 31)), (''NetVolume'', Num (Finite 99))]),
                        (''Qto_WallBaseQuantities'',
                          [(''id'', Num (Finite 32)), (''NetVolume'', Num (Finite 16))])],
      create_shape = None,
      get_materials = Some [MaterialNamed (Some ''Concrete'')]\<rparr>"

text \<open>
  A model in millimetres. \<open>revit_wall\<close> has its quantities in a set named
  \<open>BaseQuantities\<close>, a set \<open>Pset_WallCommon\<close> whose name does not signal
  quantities, and a geometry; \<open>unchecked_wall\<close> declares a negative volume, an area
  written \<open>nan\<close> and a length written \<open>inf\<close>.
\<close>

definition mm_extractor :: quantity_extractor where
  "mm_extractor = \<lparr>unit_scale_factor = 1 / 1000\<rparr>"

definition revit_wall :: element where
  "revit_wall =
     \<lparr>element_id = 2, GlobalId = None, is_a = ''IfcWall'',
      Name = None, Tag = None, PredefinedType = None,
      IsDefinedBy = Some [IfcRelOther, IfcRelDefinesByProperties IfcPropertySet,
                          IfcRelDefinesByProperties
                            (IfcElementQuantity
                               [IfcQuantityLength PyNone, IfcQuantityLength (Num (Finite 200)),
                                IfcQuantityArea (Num (Finite 12000000))])],
      get_psets = Some [(''Pset_WallCommon'',
                          [(''id'', Num (Finite 41)), (''Area'', Num (Finite 1)),
                           (''Reference'', NotNumeric)]),
                        (''BaseQuantities'',
                          [(''id'', Num (Finite 42)), (''Height'', PyNone),
                           (''Width'', Num (Finite 200)),
                           (''NetSideArea'', Num (Finite 12000000))])],
      create_shape =
        Some \<lparr>geom_volume = Some (Finite 77), geom_area = Some (Finite 88), geom_bbox = None\<rparr>,
      get_materials = None\<rparr>"

definition unchecked_wall :: element where
  "unchecked_wall =
     \<lparr>element_id = 3, GlobalId = None, is_a = ''IfcWall'',
      Name = None, Tag = None, PredefinedType = None,
      IsDefinedBy = None,
      get_psets = Some [(''BaseQuantities'',
                          [(''NetVolume'', Num (Finite (- 5))), (''NetArea'', Num NaN),
                           (''Length'', Num PosInf)])],
      create_shape = None,
      get_materials = None\<rparr>"

text \<open>
  An extractor whose scale cubed is out of the float range, and a beam that declares
  only its length: extraction fails on an element with a volume, not on the beam.
\<close>

definition huge_scale :: real where
  "huge_scale = 2 ^ 400"

definition huge_extractor :: quantity_extractor where
  "huge_extractor = \<lparr>unit_scale_factor = huge_scale\<rparr>"

definition plain_beam :: element where
  "plain_beam =
     \<lparr>element_id = 4, GlobalId = None, is_a = ''IfcBeam'',
      Name = None, Tag = None, PredefinedType = Some ''JOIST'',
      IsDefinedBy = None,
      get_psets = Some [(''Qto_BeamBaseQuantities'', [(''Length'', Num (Finite 3))])],
      create_shape = None,
      get_materials = None\<rparr>"

text \<open>
  Three walls of a model in metres, with declared volumes 2, 3.5 and 1.5, and the
  records extracted from them.
\<close>

definition metre_extractor :: quantity_extractor where
  "metre_extractor = \<lparr>unit_scale_factor = 1\<rparr>"

definition wall :: "int \<Rightarrow> real \<Rightarrow> element" where
  "wall i v =
     \<lparr>element_id = i, GlobalId = None, is_a = ''IfcWall'',
      Name = None, Tag = None, PredefinedType = None,
      IsDefinedBy = None,
      get_psets = Some [(''Qto_WallBaseQuantities'',
                          [(''NetVolume'', Num (Finite v)), (''NetSideArea'', Num (Finite 10)),
                           (''Length'', Num (Finite 5))])],
      create_shape = None,
      get_materials = Some []\<rparr>"

definition wall_record :: "int \<Rightarrow> real \<Rightarrow> quantity_record" where
  "wall_record i v =
     \<lparr>q_element_id = i, q_global_id = None, q_type = ''IfcWall'', q_name = None, q_tag = None,
      q_volume = Some (Finite v), q_area = Some (Finite 10), q_length = Some (Finite 5),
      q_count = Some 1, q_material = None, q_storey = None, q_category = ''IfcWall''\<rparr>"

definition three_walls :: "quantity_record list" where
  "three_walls = [wall_record 1 2, wall_record 2 (7 / 2), wall_record 3 (3 / 2)]"

section \<open>Verification\<close>

subsection \<open>Floats\<close>

lemma float_overflow_gt_1: "1 < float_overflow"
  by (simp add: float_overflow_def)

lemma float_of_real_in_range: "\<bar>r\<bar> < float_overflow \<Longrightarrow> float_of_real r = Finite r"
  by (auto simp: float_of_real_def)

lemma py_pow_small: "\<bar>x\<bar> \<le> 1 \<Longrightarrow> py_pow x n = Inr (x ^ n)"
proof -
  assume "\<bar>x\<bar> \<le> 1"
  then have "\<bar>x\<bar> ^ n \<le> 1" by (simp add: power_le_one)
  then have "\<bar>x ^ n\<bar> < float_overflow" using float_overflow_gt_1 by (simp add: power_abs)
  then show ?thesis by (simp add: py_pow_def)
qed

lemma scale_in_range_small: "\<bar>unit_scale_factor self\<bar> \<le> 1 \<Longrightarrow> scale_in_range self"
proof -
  assume a: "\<bar>unit_scale_factor self\<bar> \<le> 1"
  have "\<bar>unit_scale_factor self ^ n\<bar> < float_overflow" for n
  proof -
    have "\<bar>unit_scale_factor self ^ n\<bar> = \<bar>unit_scale_factor self\<bar> ^ n"
      by (simp add: power_abs)
    also have "\<dots> \<le> 1" using a by (simp add: power_le_one)
    also have "1 < float_overflow" by (rule float_overflow_gt_1)
    finally show ?thesis .
  qed
  then show ?thesis unfolding scale_in_range_def by blast
qed

lemma finite_nonneg_times:
  assumes "finite_nonneg x" and "0 \<le> p" and "p \<le> 1"
  shows "finite_nonneg (float_times x p)"
proof (cases x)
  case (Finite v)
  with assms(1) have v: "0 \<le> v" "v < float_overflow" by simp_all
  have "v * p \<le> v * 1" using assms(3) v(1) by (rule mult_left_mono)
  then have up: "v * p < float_overflow" using v(2) by simp
  have lo: "0 \<le> v * p" using v(1) assms(2) by simp
  from up lo have "\<bar>v * p\<bar> < float_overflow" by simp
  then have "float_of_real (v * p) = Finite (v * p)" by (rule float_of_real_in_range)
  with Finite up lo show ?thesis by simp
qed (use assms(1) in simp_all)

subsection \<open>Quantity extraction\<close>

lemma all_none_iff: "all_none q \<longleftrightarrow> q = qempty"
  by (auto simp: all_none_def qempty_def)

lemma fill_absent_qempty: "fill_absent qempty q = q"
  by (simp add: fill_absent_def qempty_def)

text \<open>
  Tier 1 resolves nothing, for any element: the lookup of \<open>get_qtos\<close> raises, and the
  handler is after the direct access through \<open>IsDefinedBy\<close>.
\<close>

lemma tier1_empty: "extract_ifc_element_quantities e = qempty"
  by (simp add: extract_ifc_element_quantities_def get_qtos_def)

lemma resolve_raw_eq:
  "resolve_raw e =
     (if all_none (extract_qto_properties e) then calculate_geometric_quantities e
      else extract_qto_properties e)"
  by (simp add: resolve_raw_def tier1_empty Let_def fill_absent_qempty all_none_iff)

lemma get_field_in_metres:
  "get_field (in_metres s q) f =
   map_option (\<lambda>v. float_times v (s ^ exponent f)) (get_field q f)"
  by (cases f) (simp_all add: in_metres_def)

lemma extract_quantities_Inr:
  assumes "extract_quantities self e st = Inr r"
  shows "measures r = in_metres (unit_scale_factor self) (resolve_raw e) \<and> q_count r = Some 1 \<and>
         q_type r = is_a e \<and> q_storey r = st \<and> q_material r = extract_material e"
  using assms
  by (auto simp: extract_quantities_def convert_def py_pow_def measures_def in_metres_def Let_def
      split: option.splits sum.splits if_splits)

lemma extract_quantities_returns:
  assumes "scale_in_range self"
  shows "\<exists>r. extract_quantities self e st = Inr r"
  using assms
  by (auto simp: extract_quantities_def convert_def py_pow_def scale_in_range_def Let_def
      split: option.splits sum.splits)

lemma valid_values_append: "valid_values f (a @ b) = valid_values f a @ valid_values f b"
  by (simp add: valid_values_def List.map_filter_def)

lemma first_valid_append:
  "first_valid f (a @ b) = (case first_valid f a of Some v \<Rightarrow> Some v | None \<Rightarrow> first_valid f b)"
  by (simp add: first_valid_def valid_values_append split: list.splits)

lemma get_field_set_field:
  "get_field (set_field q t v) f = (if f = t then Some v else get_field q f)"
  by (cases f; cases t) simp_all

lemma get_field_store_first:
  "get_field (store_first q t v) f =
     (if f = t \<and> get_field q t = None then Some v else get_field q f)"
  by (simp add: store_first_def get_field_set_field)

lemma first_valid_Nil: "first_valid f [] = None"
  by (simp add: first_valid_def valid_values_def List.map_filter_def)

lemma first_valid_Cons:
  "first_valid f ((n, x) # items) =
     (if map_of quantity_mappings n = Some f
      then (case py_float x of Some v \<Rightarrow> Some v | None \<Rightarrow> first_valid f items)
      else first_valid f items)"
  by (simp add: first_valid_def valid_values_def List.map_filter_def split: option.splits)

lemma scan_dict_field:
  "get_field (scan_dict q d) f =
     (case get_field q f of Some v \<Rightarrow> Some v | None \<Rightarrow> first_valid f d)"
  unfolding scan_dict_def
proof (induction d arbitrary: q)
  case Nil
  then show ?case by (simp add: first_valid_Nil split: option.splits)
next
  case (Cons a d)
  obtain n x where a: "a = (n, x)" by (cases a)
  show ?case
    by (simp add: a Cons.IH first_valid_Cons get_field_store_first split: option.splits)
qed

lemma get_field_qempty: "get_field qempty f = None"
  by (cases f) (simp_all add: qempty_def)

lemma all_none_get_field: "all_none q \<longleftrightarrow> (\<forall>f. get_field q f = None)"
proof
  assume "all_none q"
  then show "\<forall>f. get_field q f = None"
    by (auto simp: all_none_def intro: qfield.induct)
next
  assume a: "\<forall>f. get_field q f = None"
  from a have "get_field q Volume = None" "get_field q Area = None" "get_field q Length = None"
    by blast+
  then show "all_none q" by (simp add: all_none_def)
qed

lemma tier2_field:
  assumes "get_psets e = Some psets"
  shows "get_field (extract_qto_properties e) f =
         first_valid f (qto_items (filter (\<lambda>(n, props). signals_quantities n) psets))"
proof -
  have "get_field (foldl (\<lambda>acc (pset_name, props).
                   if signals_quantities pset_name then scan_dict acc props else acc) q psets) f =
        (case get_field q f of Some v \<Rightarrow> Some v
         | None \<Rightarrow> first_valid f (qto_items (filter (\<lambda>(n, props). signals_quantities n) psets)))"
    for q
  proof (induction psets arbitrary: q)
    case Nil
    then show ?case by (simp add: qto_items_def first_valid_Nil split: option.splits)
  next
    case (Cons a psets)
    obtain n d where a: "a = (n, d)" by (cases a)
    show ?case
      by (simp add: a Cons.IH scan_dict_field qto_items_def first_valid_append
          split: option.splits)
  qed
  then show ?thesis using assms
    by (simp add: extract_qto_properties_def get_field_qempty)
qed

lemma half_in_range: "scale_in_range half_extractor"
  by (rule scale_in_range_small) (simp add: half_extractor_def)

lemma mm_in_range: "scale_in_range mm_extractor"
  by (rule scale_in_range_small) (simp add: mm_extractor_def)

lemma eval_tier2_authoritative:
  "extract_qto_properties authoritative_wall =
     \<lparr>p_volume = Some (Finite 99), p_area = None, p_length = None\<rparr>"
  by (simp add: authoritative_wall_def extract_qto_properties_def scan_dict_def
      signals_quantities_def quantity_mappings_def store_first_def qempty_def)

lemma eval_tier2_revit:
  "extract_qto_properties revit_wall =
     \<lparr>p_volume = None, p_area = Some (Finite 12000000), p_length = Some (Finite 200)\<rparr>"
  by (simp add: revit_wall_def extract_qto_properties_def scan_dict_def signals_quantities_def
      quantity_mappings_def store_first_def qempty_def)

lemma eval_tier2_unchecked:
  "extract_qto_properties unchecked_wall =
     \<lparr>p_volume = Some (Finite (- 5)), p_area = Some NaN, p_length = Some PosInf\<rparr>"
  by (simp add: unchecked_wall_def extract_qto_properties_def scan_dict_def
      signals_quantities_def quantity_mappings_def store_first_def qempty_def)

lemma returned_measures_eval:
  assumes "\<bar>unit_scale_factor self\<bar> \<le> 1" and "\<not> all_none (extract_qto_properties e)"
  shows "returned_measures (extract_quantities self e st) =
         Some (in_metres (unit_scale_factor self) (extract_qto_properties e))"
proof -
  from assms(1) obtain r where r: "extract_quantities self e st = Inr r"
    using extract_quantities_returns scale_in_range_small by blast
  then have "measures r = in_metres (unit_scale_factor self) (resolve_raw e)"
    using extract_quantities_Inr by blast
  with assms(2) r show ?thesis by (simp add: returned_measures_def resolve_raw_eq)
qed

text \<open>
  Claim C1 (a defect of the code). The authoritative quantities of an element never reach
  its record as such: tier 1 is empty for every element (\<open>tier1_empty\<close>), so the
  values come from the sets of \<open>get_psets\<close> whose name signals quantities, in their
  order. On \<open>authoritative_wall\<close> the \<open>IfcElementQuantity\<close> states a volume of 16
  and the property set \<open>MyQuantities\<close>, defined before it, a \<open>NetVolume\<close> of 99:
  with a scale of one half the record holds \<open>99 / 8\<close>, not \<open>16 / 8\<close>.
\<close>

theorem authoritative_volume_loses:
  "extract_ifc_element_quantities authoritative_wall = qempty \<and>
   returned_measures (extract_quantities half_extractor authoritative_wall None) =
     Some \<lparr>p_volume = Some (Finite (99 / 8)), p_area = None, p_length = None\<rparr>"
proof -
  have "returned_measures (extract_quantities half_extractor authoritative_wall None) =
        Some (in_metres (1 / 2) \<lparr>p_volume = Some (Finite 99), p_area = None, p_length = None\<rparr>)"
    using returned_measures_eval[of half_extractor authoritative_wall None]
    by (simp add: eval_tier2_authoritative half_extractor_def all_none_def)
  also have "in_metres (1 / 2) \<lparr>p_volume = Some (Finite 99), p_area = None, p_length = None\<rparr> =
             \<lparr>p_volume = Some (Finite (99 / 8)), p_area = None, p_length = None\<rparr>"
    by (simp add: in_metres_def float_of_real_def float_overflow_def power_divide)
  finally show ?thesis by (simp add: tier1_empty)
qed

text \<open>
  Claim C4. Tier 1 leaves the three fields absent, for every element. Tier 2 scans the
  sets whose name contains \<open>Qto\<close> or \<open>Quantities\<close> and resolves, per field, the
  first valid entry. Every field tier 2 resolves is filled in the record (converted), and
  when tier 2 resolved some field, a field it did not resolve stays absent.
\<close>

theorem tier2_fills_absent_fields:
  assumes "scale_in_range self"
  shows "all_none (extract_ifc_element_quantities e) \<and>
         (\<exists>r. extract_quantities self e storey = Inr r \<and>
            (\<forall>f v. get_field (extract_qto_properties e) f = Some v \<longrightarrow>
               get_field (measures r) f =
               Some (float_times v (unit_scale_factor self ^ exponent f))) \<and>
            (\<not> all_none (extract_qto_properties e) \<longrightarrow>
               (\<forall>f. get_field (extract_qto_properties e) f = None \<longrightarrow>
                  get_field (measures r) f = None))) \<and>
         (\<forall>psets f. get_psets e = Some psets \<longrightarrow>
            get_field (extract_qto_properties e) f =
            first_valid f (qto_items (filter (\<lambda>(n, props). signals_quantities n) psets)))"
proof -
  from assms obtain r where r: "extract_quantities self e storey = Inr r"
    using extract_quantities_returns by blast
  have m: "measures r = in_metres (unit_scale_factor self) (resolve_raw e)"
    using extract_quantities_Inr[OF r] by simp
  have filled: "get_field (measures r) f =
                Some (float_times v (unit_scale_factor self ^ exponent f))"
    if "get_field (extract_qto_properties e) f = Some v" for f v
  proof -
    from that have "\<not> all_none (extract_qto_properties e)"
      by (auto simp: all_none_get_field)
    then have "resolve_raw e = extract_qto_properties e" by (simp add: resolve_raw_eq)
    with m that show ?thesis by (simp add: get_field_in_metres)
  qed
  have absent: "get_field (measures r) f = None"
    if "\<not> all_none (extract_qto_properties e)" "get_field (extract_qto_properties e) f = None"
    for f
    using that m by (simp add: resolve_raw_eq get_field_in_metres)
  have "\<exists>r. extract_quantities self e storey = Inr r \<and>
            (\<forall>f v. get_field (extract_qto_properties e) f = Some v \<longrightarrow>
               get_field (measures r) f =
               Some (float_times v (unit_scale_factor self ^ exponent f))) \<and>
            (\<not> all_none (extract_qto_properties e) \<longrightarrow>
               (\<forall>f. get_field (extract_qto_properties e) f = None \<longrightarrow>
                  get_field (measures r) f = None))"
    using r filled absent by blast
  then show ?thesis
    by (simp add: tier1_empty all_none_iff tier2_field)
qed

text \<open>
  On \<open>revit_wall\<close> tier 2 resolves the area and the length from \<open>BaseQuantities\<close>
  (the \<open>Area\<close> of \<open>Pset_WallCommon\<close> is not read): the record holds 12 square
  metres and 0.2 metres, and no volume, although the geometry has one.
\<close>

theorem tier2_fills_absent_fields_witness:
  "\<exists>r. extract_quantities mm_extractor revit_wall None = Inr r \<and>
       measures r = \<lparr>p_volume = None, p_area = Some (Finite 12), p_length = Some (Finite (1 / 5))\<rparr>"
proof -
  from tier2_fills_absent_fields[OF mm_in_range, of revit_wall None]
  obtain r where r: "extract_quantities mm_extractor revit_wall None = Inr r"
    and filled: "\<forall>f v. get_field (extract_qto_properties revit_wall) f = Some v \<longrightarrow>
               get_field (measures r) f =
               Some (float_times v (unit_scale_factor mm_extractor ^ exponent f))"
    and absent: "\<not> all_none (extract_qto_properties revit_wall) \<longrightarrow>
               (\<forall>f. get_field (extract_qto_properties revit_wall) f = None \<longrightarrow>
                  get_field (measures r) f = None)"
    by blast
  have "get_field (extract_qto_properties revit_wall) Volume = None"
    by (simp add: eval_tier2_revit)
  moreover have "\<not> all_none (extract_qto_properties revit_wall)"
    by (simp add: eval_tier2_revit all_none_def)
  ultimately have v: "get_field (measures r) Volume = None"
    using absent by blast
  have "get_field (extract_qto_properties revit_wall) Area = Some (Finite 12000000)"
    by (simp add: eval_tier2_revit)
  with filled have "get_field (measures r) Area =
      Some (float_times (Finite 12000000) (unit_scale_factor mm_extractor ^ exponent Area))"
    by blast
  then have a: "get_field (measures r) Area = Some (Finite 12)"
    by (simp add: mm_extractor_def float_of_real_def float_overflow_def power_divide)
  have "get_field (extract_qto_properties revit_wall) Length = Some (Finite 200)"
    by (simp add: eval_tier2_revit)
  with filled have "get_field (measures r) Length =
      Some (float_times (Finite 200) (unit_scale_factor mm_extractor ^ exponent Length))"
    by blast
  then have l: "get_field (measures r) Length = Some (Finite (1 / 5))"
    by (simp add: mm_extractor_def float_of_real_def float_overflow_def)
  from v a l have "measures r =
      \<lparr>p_volume = None, p_area = Some (Finite 12), p_length = Some (Finite (1 / 5))\<rparr>"
    by (cases "measures r") simp
  with r show ?thesis by blast
qed

text \<open>
  Claim C8, as stated, fails on \<open>unchecked_wall\<close>: the declared values are stored as
  \<open>float\<close> gives them, so the record holds a negative volume, an area that is NaN and
  an infinite length.
\<close>

theorem unchecked_values_counterexample:
  "returned_measures (extract_quantities mm_extractor unchecked_wall None) =
     Some \<lparr>p_volume = Some (Finite (- (5 / 1000000000))), p_area = Some NaN,
           p_length = Some PosInf\<rparr> \<and>
   - (5 / 1000000000) < (0::real)"
proof -
  have "returned_measures (extract_quantities mm_extractor unchecked_wall None) =
        Some (in_metres (1 / 1000)
                \<lparr>p_volume = Some (Finite (- 5)), p_area = Some NaN, p_length = Some PosInf\<rparr>)"
    using returned_measures_eval[of mm_extractor unchecked_wall None]
    by (simp add: eval_tier2_unchecked mm_extractor_def all_none_def)
  also have "in_metres (1 / 1000)
                \<lparr>p_volume = Some (Finite (- 5)), p_area = Some NaN, p_length = Some PosInf\<rparr> =
             \<lparr>p_volume = Some (Finite (- (5 / 1000000000))), p_area = Some NaN,
              p_length = Some PosInf\<rparr>"
    by (simp add: in_metres_def float_of_real_def float_overflow_def power_divide)
  finally show ?thesis by simp
qed

lemma gt_zero_positive_only: "positive_only x = Some v \<Longrightarrow> gt_zero v"
  by (auto simp: positive_only_def split: option.splits if_splits)

lemma geometric_values_positive:
  assumes "get_field (calculate_geometric_quantities e) f = Some x"
  shows "gt_zero x"
proof (cases "create_shape e")
  case None
  with assms show ?thesis
    by (simp add: calculate_geometric_quantities_def get_field_qempty)
next
  case (Some geometry)
  with assms show ?thesis
    by (cases f)
      (auto simp: calculate_geometric_quantities_def gt_zero_positive_only split: if_splits)
qed

text \<open>
  Claim C8, amended. A measure of the record is absent exactly when the fallback chain
  resolved no raw value for it, and otherwise it is the raw value times the power of the
  scale factor. The raw values are those of tier 2 when tier 2 resolved any (per field
  the first valid entry of the sets whose name signals quantities, as \<open>float\<close> gave
  it), and else those of the geometry, each greater than 0 (so neither negative nor NaN).
  When the scale factor lies between 0 and 1, as every factor of
  \<open>get_unit_scale_factor\<close> does, a measure whose raw value is finite and not negative
  is finite and not negative.
\<close>

theorem measures_finite_nonneg:
  assumes "0 \<le> unit_scale_factor self" and "unit_scale_factor self \<le> 1"
  shows "(\<exists>r. extract_quantities self e storey = Inr r \<and>
            measures r = in_metres (unit_scale_factor self) (resolve_raw e) \<and>
            (\<forall>f. (get_field (measures r) f = None) = (get_field (resolve_raw e) f = None)) \<and>
            (\<forall>f x. get_field (resolve_raw e) f = Some x \<and> finite_nonneg x \<longrightarrow>
               (\<exists>y. get_field (measures r) f = Some y \<and> finite_nonneg y))) \<and>
         resolve_raw e =
           (if all_none (extract_qto_properties e) then calculate_geometric_quantities e
            else extract_qto_properties e) \<and>
         (\<forall>psets f. get_psets e = Some psets \<longrightarrow>
            get_field (extract_qto_properties e) f =
            first_valid f (qto_items (filter (\<lambda>(n, props). signals_quantities n) psets))) \<and>
         (\<forall>f x. get_field (calculate_geometric_quantities e) f = Some x \<longrightarrow> gt_zero x)"
proof -
  from assms have "\<bar>unit_scale_factor self\<bar> \<le> 1" by simp
  then obtain r where r: "extract_quantities self e storey = Inr r"
    using extract_quantities_returns scale_in_range_small by blast
  have m: "measures r = in_metres (unit_scale_factor self) (resolve_raw e)"
    using extract_quantities_Inr[OF r] by simp
  have p: "0 \<le> unit_scale_factor self ^ k \<and> unit_scale_factor self ^ k \<le> 1" for k
    using assms by (simp add: power_le_one)
  have "\<exists>y. get_field (measures r) f = Some y \<and> finite_nonneg y"
    if "get_field (resolve_raw e) f = Some x \<and> finite_nonneg x" for f x
  proof -
    from that m have "get_field (measures r) f =
        Some (float_times x (unit_scale_factor self ^ exponent f))"
      by (simp add: get_field_in_metres)
    moreover have "finite_nonneg (float_times x (unit_scale_factor self ^ exponent f))"
      using that p by (intro finite_nonneg_times) simp_all
    ultimately show ?thesis by blast
  qed
  moreover have "(get_field (measures r) f = None) = (get_field (resolve_raw e) f = None)" for f
    using m by (simp add: get_field_in_metres)
  ultimately have "\<exists>r. extract_quantities self e storey = Inr r \<and>
            measures r = in_metres (unit_scale_factor self) (resolve_raw e) \<and>
            (\<forall>f. (get_field (measures r) f = None) = (get_field (resolve_raw e) f = None)) \<and>
            (\<forall>f x. get_field (resolve_raw e) f = Some x \<and> finite_nonneg x \<longrightarrow>
               (\<exists>y. get_field (measures r) f = Some y \<and> finite_nonneg y))"
    using r m by blast
  moreover have "\<forall>psets f. get_psets e = Some psets \<longrightarrow>
            get_field (extract_qto_properties e) f =
            first_valid f (qto_items (filter (\<lambda>(n, props). signals_quantities n) psets))"
    using tier2_field by blast
  ultimately show ?thesis
    using resolve_raw_eq geometric_values_positive by blast
qed

lemma revit_wall_raw:
  "resolve_raw revit_wall =
     \<lparr>p_volume = None, p_area = Some (Finite 12000000), p_length = Some (Finite 200)\<rparr>"
  by (simp add: resolve_raw_eq eval_tier2_revit all_none_def)

text \<open>
  The invariant on the record of \<open>revit_wall\<close>, whose raw values are an area of
  12000000 and a length of 200: no volume, and an area and a length that are finite and
  not negative.
\<close>

theorem measures_finite_nonneg_witness:
  "\<exists>r. extract_quantities mm_extractor revit_wall None = Inr r \<and>
       get_field (measures r) Volume = None \<and>
       (\<exists>y. get_field (measures r) Area = Some y \<and> finite_nonneg y) \<and>
       (\<exists>y. get_field (measures r) Length = Some y \<and> finite_nonneg y)"
proof -
  have s: "0 \<le> unit_scale_factor mm_extractor" "unit_scale_factor mm_extractor \<le> 1"
    by (simp_all add: mm_extractor_def)
  from measures_finite_nonneg[OF s, of revit_wall None]
  obtain r where r: "extract_quantities mm_extractor revit_wall None = Inr r"
    and n: "\<forall>f. (get_field (measures r) f = None) =
                (get_field (resolve_raw revit_wall) f = None)"
    and ok: "\<forall>f x. get_field (resolve_raw revit_wall) f = Some x \<and> finite_nonneg x \<longrightarrow>
               (\<exists>y. get_field (measures r) f = Some y \<and> finite_nonneg y)"
    by blast
  have "get_field (resolve_raw revit_wall) Volume = None"
    by (simp add: revit_wall_raw)
  with n have v: "get_field (measures r) Volume = None" by blast
  have "get_field (resolve_raw revit_wall) Area = Some (Finite 12000000) \<and>
        finite_nonneg (Finite 12000000)"
    by (simp add: revit_wall_raw float_overflow_def)
  with ok have a: "\<exists>y. get_field (measures r) Area = Some y \<and> finite_nonneg y" by blast
  have "get_field (resolve_raw revit_wall) Length = Some (Finite 200) \<and>
        finite_nonneg (Finite 200)"
    by (simp add: revit_wall_raw float_overflow_def)
  with ok have l: "\<exists>y. get_field (measures r) Length = Some y \<and> finite_nonneg y" by blast
  from r v a l show ?thesis by blast
qed

subsection \<open>The batch\<close>

lemma extract_loop_eq:
  "extract_loop self fn acc es = acc @ List.map_filter (attempt self fn) es"
  by (induction es arbitrary: acc)
    (auto simp: List.map_filter_simps attempt_def split: sum.splits)

lemma attempt_element_id: "attempt self fn e = Some r \<Longrightarrow> q_element_id r = element_id e"
  by (auto simp: attempt_def extract_quantities_def Let_def split: sum.splits)

lemma map_filter_ids:
  "map q_element_id (List.map_filter (attempt self fn) es) =
   map element_id (filter (\<lambda>e. attempt self fn e \<noteq> None) es)"
  by (induction es) (auto simp: List.map_filter_simps attempt_element_id split: option.splits)

text \<open>
  Claim C6. \<open>extract_all_quantities\<close> returns a list for every list of elements and
  every storey function: an exception of the storey function or of an extraction is
  caught inside the loop, and the handler only reads the identifier of the element. The
  result holds exactly the records of the elements whose extraction returned, in the
  order of the elements: an element whose extraction raised is left out and every other
  element is kept.
\<close>

theorem extract_all_quantities_isolates_failures:
  "extract_all_quantities self elements fn = List.map_filter (attempt self fn) elements \<and>
   map q_element_id (extract_all_quantities self elements fn) =
     map element_id (filter (\<lambda>e. attempt self fn e \<noteq> None) elements)"
  by (simp add: extract_all_quantities_def extract_loop_eq map_filter_ids)

lemma huge_overflows: "py_pow huge_scale 3 = Inl OverflowError"
  by (simp add: py_pow_def float_overflow_def huge_scale_def)

lemma attempt_authoritative_huge: "attempt huge_extractor fn authoritative_wall = None"
  by (simp add: attempt_def extract_quantities_def resolve_raw_eq eval_tier2_authoritative
      all_none_def convert_def huge_extractor_def huge_overflows Let_def)

lemma attempt_unchecked_huge: "attempt huge_extractor fn unchecked_wall = None"
  by (simp add: attempt_def extract_quantities_def resolve_raw_eq eval_tier2_unchecked
      all_none_def convert_def huge_extractor_def huge_overflows Let_def)

lemma eval_tier2_beam:
  "extract_qto_properties plain_beam =
     \<lparr>p_volume = None, p_area = None, p_length = Some (Finite 3)\<rparr>"
  by (simp add: plain_beam_def extract_qto_properties_def scan_dict_def signals_quantities_def
      quantity_mappings_def store_first_def qempty_def)

lemma attempt_beam_huge: "attempt huge_extractor fn plain_beam \<noteq> None"
  by (simp add: attempt_def extract_quantities_def resolve_raw_eq eval_tier2_beam
      all_none_def convert_def Let_def)

text \<open>
  With a scale of \<open>2^400\<close> the two walls, which have a volume to convert, fail on the
  overflow and are left out; the beam between them is kept, although the storey function
  raises on every element.
\<close>

theorem extract_all_quantities_isolates_failures_witness:
  "map q_element_id
     (extract_all_quantities huge_extractor [authoritative_wall, plain_beam, unchecked_wall]
        (Some (\<lambda>e. Inl RuntimeError))) = [4]"
proof -
  have f: "filter (\<lambda>e. attempt huge_extractor (Some (\<lambda>e. Inl RuntimeError)) e \<noteq> None)
          [authoritative_wall, plain_beam, unchecked_wall] = [plain_beam]"
    using attempt_beam_huge by (simp add: attempt_authoritative_huge attempt_unchecked_huge)
  have "map q_element_id
     (extract_all_quantities huge_extractor [authoritative_wall, plain_beam, unchecked_wall]
        (Some (\<lambda>e. Inl RuntimeError))) =
     map element_id
       (filter (\<lambda>e. attempt huge_extractor (Some (\<lambda>e. Inl RuntimeError)) e \<noteq> None)
          [authoritative_wall, plain_beam, unchecked_wall])"
    using extract_all_quantities_isolates_failures[of huge_extractor
      "[authoritative_wall, plain_beam, unchecked_wall]" "Some (\<lambda>e. Inl RuntimeError)"]
    by (rule conjunct2)
  also have "\<dots> = [element_id plain_beam]"
    by (simp only: f list.map)
  finally show ?thesis by (simp add: plain_beam_def)
qed

subsection \<open>The lines of the bill\<close>

lemma extract_all_count:
  assumes "r \<in> set (extract_all_quantities self es fn)"
  shows "q_count r = Some 1"
proof -
  from assms obtain e where "attempt self fn e = Some r"
    by (auto simp: extract_all_quantities_def extract_loop_eq List.map_filter_def)
  then have "extract_quantities self e (storey_of fn e) = Inr r"
    by (simp add: attempt_def split: sum.splits)
  then show ?thesis using extract_quantities_Inr by blast
qed

lemma group_append_members:
  assumes "\<forall>(k, items) \<in> set groups. items \<noteq> [] \<and> set items \<subseteq> S" and "qty \<in> S"
  shows "\<forall>(k, items) \<in> set (group_append groups key qty). items \<noteq> [] \<and> set items \<subseteq> S"
  using assms by (induction groups key qty rule: group_append.induct) auto

lemma group_fold_members:
  assumes "\<forall>(k, items) \<in> set groups. items \<noteq> [] \<and> set items \<subseteq> S" and "set qs \<subseteq> S"
  shows "\<forall>(k, items) \<in> set (foldl (\<lambda>grouped qty. group_append grouped (group_key_of lvl qty) qty)
                               groups qs). items \<noteq> [] \<and> set items \<subseteq> S"
  using assms
proof (induction qs arbitrary: groups)
  case Nil
  then show ?case by simp
next
  case (Cons a qs)
  have "\<forall>(k, items) \<in> set (group_append groups (group_key_of lvl a) a).
          items \<noteq> [] \<and> set items \<subseteq> S"
    using Cons.prems by (intro group_append_members) auto
  then show ?case using Cons by simp
qed

lemma group_quantities_members:
  assumes "(k, items) \<in> set (group_quantities quantities lvl)"
  shows "items \<noteq> [] \<and> set items \<subseteq> set quantities"
  using group_fold_members[of "[]" "set quantities" quantities lvl] assms
  by (auto simp: group_quantities_def)

lemma line_labels_nonempty:
  "items \<noteq> [] \<Longrightarrow> \<exists>labels. line_labels k items lvl = Inr labels"
  by (cases items) (simp_all add: line_labels_def Let_def)

lemma create_boq_item_nonempty:
  assumes "items \<noteq> []"
  shows "\<exists>line. create_boq_item k items lvl = Inr line"
proof -
  from assms obtain labels where "line_labels k items lvl = Inr labels"
    using line_labels_nonempty by blast
  then show ?thesis
    by (cases labels) (simp add: create_boq_item_def Let_def)
qed

lemma create_boq_item_count:
  assumes "create_boq_item k items lvl = Inr line"
  shows "b_count line = total_count_of items"
  using assms
  by (auto simp: create_boq_item_def Let_def split: sum.splits prod.splits)

lemma total_count_ones:
  assumes "\<forall>r \<in> set items. q_count r = Some 1"
  shows "total_count_of items = int (length items)"
  using assms unfolding total_count_of_def
  by (induction items) auto

text \<open>
  Claim C9. For every group that \<open>_group_quantities\<close> forms from the records of
  \<open>extract_all_quantities\<close>, \<open>_create_boq_item\<close> returns a line whose count is the
  number of records of the group: every extracted record has count 1, and the line sums
  the counts.
\<close>

theorem line_count_is_group_size:
  assumes "(k, items) \<in> set (group_quantities (extract_all_quantities self es fn) lvl)"
  shows "\<exists>line. create_boq_item k items lvl = Inr line \<and> b_count line = int (length items)"
proof -
  from assms have ne: "items \<noteq> []"
    and sub: "set items \<subseteq> set (extract_all_quantities self es fn)"
    using group_quantities_members by blast+
  from ne obtain line where line: "create_boq_item k items lvl = Inr line"
    using create_boq_item_nonempty by blast
  have "\<forall>r \<in> set items. q_count r = Some 1"
    using sub extract_all_count by blast
  then have "total_count_of items = int (length items)"
    by (rule total_count_ones)
  with line show ?thesis by (simp add: create_boq_item_count)
qed

lemma eval_tier2_wall:
  "extract_qto_properties (wall i v) =
     \<lparr>p_volume = Some (Finite v), p_area = Some (Finite 10), p_length = Some (Finite 5)\<rparr>"
  by (simp add: wall_def extract_qto_properties_def scan_dict_def signals_quantities_def
      quantity_mappings_def store_first_def qempty_def)

lemma extract_wall:
  assumes "\<bar>v\<bar> < float_overflow"
  shows "extract_quantities metre_extractor (wall i v) None = Inr (wall_record i v)"
proof -
  have "float_of_real v = Finite v" using assms by (rule float_of_real_in_range)
  moreover have "float_of_real 10 = Finite 10" "float_of_real 5 = Finite 5"
    by (simp_all add: float_of_real_def float_overflow_def)
  moreover have "py_pow 1 k = Inr 1" for k
    using py_pow_small[of 1 k] by simp
  ultimately show ?thesis
    by (simp add: extract_quantities_def resolve_raw_eq eval_tier2_wall all_none_def convert_def
        metre_extractor_def Let_def)
      (simp add: wall_def wall_record_def extract_material_def get_category_def)
qed

lemma extract_three_walls:
  "extract_all_quantities metre_extractor [wall 1 2, wall 2 (7 / 2), wall 3 (3 / 2)] None =
   three_walls"
proof -
  have "\<bar>2::real\<bar> < float_overflow" "\<bar>7 / 2::real\<bar> < float_overflow"
    "\<bar>3 / 2::real\<bar> < float_overflow"
    by (simp_all add: float_overflow_def)
  then show ?thesis
    by (simp add: extract_all_quantities_def storey_of_def extract_wall three_walls_def)
qed

lemma group_three_walls:
  "group_quantities three_walls ''type'' = [(''IfcWall'', three_walls)]"
  by (simp add: group_quantities_def three_walls_def group_key_of_def wall_record_def)

text \<open>The three walls extracted and grouped by type give one group and a line of count 3.\<close>

theorem line_count_is_group_size_witness:
  "\<exists>line. create_boq_item ''IfcWall'' three_walls ''type'' = Inr line \<and> b_count line = 3"
  using line_count_is_group_size[of "''IfcWall''" three_walls metre_extractor
      "[wall 1 2, wall 2 (7 / 2), wall 3 (3 / 2)]" None "''type''"]
  by (simp add: extract_three_walls group_three_walls) (simp add: three_walls_def)

lemma round_half_even_of_int: "round_half_even (of_int n) = n"
  by (simp add: round_half_even_def)

lemma py_round_of_int: "py_round (of_int n) nd = of_int n"
proof -
  have "of_int n * (10::real) ^ nd = of_int (n * 10 ^ nd)" by simp
  then have "round_half_even (of_int n * 10 ^ nd) = n * 10 ^ nd"
    by (simp only: round_half_even_of_int)
  then show ?thesis by (simp add: py_round_def)
qed

lemma create_boq_item_primary:
  assumes "create_boq_item k items lvl = Inr line"
  shows "(b_unit line, b_quantity line) =
         (let uq = determine_primary_quantity (total_of q_volume items) (total_of q_area items)
                     (total_of q_length items) (total_count_of items) (b_element_type line)
          in (fst uq, float_round (snd uq) 3))"
  using assms
  by (auto simp: create_boq_item_def Let_def split: sum.splits prod.splits)

text \<open>
  Claim C2. Every group yields a line (a group that \<open>_group_quantities\<close> forms is
  never empty), and its unit and quantity follow the fixed priority on the base type (the type up to the first underscore) and the summed
  measures (a total is positive when it is greater than 0, which NaN is not): a
  volume-priority type with a positive volume is measured in cubic metres,
  whatever the area and the length are; else an area-priority type with a positive area
  in square metres; else a length-priority type with a positive length in metres; else
  the first positive of volume, area and length; else the line counts the records
  (unit \<open>No.\<close>). The quantity is the chosen total rounded to three decimals.
\<close>

theorem primary_quantity_priority:
  assumes "items \<noteq> []"
  shows "\<exists>line. create_boq_item k items lvl = Inr line \<and>
           (let base = element_base (b_element_type line);
                volume = total_of q_volume items;
                area = total_of q_area items;
                len = total_of q_length items;
                by_volume = (base \<in> set volume_elements \<and> gt_zero volume);
                by_area = (base \<in> set area_elements \<and> gt_zero area);
                by_length = (base \<in> set length_elements \<and> gt_zero len)
            in (by_volume \<longrightarrow>
                  b_unit line = CubicMetre \<and> b_quantity line = float_round volume 3) \<and>
               (\<not> by_volume \<and> by_area \<longrightarrow>
                  b_unit line = SquareMetre \<and> b_quantity line = float_round area 3) \<and>
               (\<not> by_volume \<and> \<not> by_area \<and> by_length \<longrightarrow>
                  b_unit line = Metre \<and> b_quantity line = float_round len 3) \<and>
               (\<not> by_volume \<and> \<not> by_area \<and> \<not> by_length \<and> gt_zero volume \<longrightarrow>
                  b_unit line = CubicMetre \<and> b_quantity line = float_round volume 3) \<and>
               (\<not> by_volume \<and> \<not> by_area \<and> \<not> by_length \<and> \<not> gt_zero volume \<and> gt_zero area \<longrightarrow>
                  b_unit line = SquareMetre \<and> b_quantity line = float_round area 3) \<and>
               (\<not> by_volume \<and> \<not> by_area \<and> \<not> by_length \<and> \<not> gt_zero volume \<and> \<not> gt_zero area \<and>
                gt_zero len \<longrightarrow>
                  b_unit line = Metre \<and> b_quantity line = float_round len 3) \<and>
               (\<not> gt_zero volume \<and> \<not> gt_zero area \<and> \<not> gt_zero len \<longrightarrow>
                  b_unit line = Number \<and>
                  b_quantity line = Finite (of_int (total_count_of items))))"
proof -
  from assms obtain line where line: "create_boq_item k items lvl = Inr line"
    using create_boq_item_nonempty by blast
  have "b_unit line = fst (determine_primary_quantity (total_of q_volume items)
                             (total_of q_area items) (total_of q_length items)
                             (total_count_of items) (b_element_type line))"
    and "b_quantity line = float_round (snd (determine_primary_quantity (total_of q_volume items)
                             (total_of q_area items) (total_of q_length items)
                             (total_count_of items) (b_element_type line))) 3"
    using create_boq_item_primary[OF line] by (simp_all add: Let_def)
  then have "(let base = element_base (b_element_type line);
                volume = total_of q_volume items;
                area = total_of q_area items;
                len = total_of q_length items;
                by_volume = (base \<in> set volume_elements \<and> gt_zero volume);
                by_area = (base \<in> set area_elements \<and> gt_zero area);
                by_length = (base \<in> set length_elements \<and> gt_zero len)
            in (by_volume \<longrightarrow>
                  b_unit line = CubicMetre \<and> b_quantity line = float_round volume 3) \<and>
               (\<not> by_volume \<and> by_area \<longrightarrow>
                  b_unit line = SquareMetre \<and> b_quantity line = float_round area 3) \<and>
               (\<not> by_volume \<and> \<not> by_area \<and> by_length \<longrightarrow>
                  b_unit line = Metre \<and> b_quantity line = float_round len 3) \<and>
               (\<not> by_volume \<and> \<not> by_area \<and> \<not> by_length \<and> gt_zero volume \<longrightarrow>
                  b_unit line = CubicMetre \<and> b_quantity line = float_round volume 3) \<and>
               (\<not> by_volume \<and> \<not> by_area \<and> \<not> by_length \<and> \<not> gt_zero volume \<and> gt_zero area \<longrightarrow>
                  b_unit line = SquareMetre \<and> b_quantity line = float_round area 3) \<and>
               (\<not> by_volume \<and> \<not> by_area \<and> \<not> by_length \<and> \<not> gt_zero volume \<and> \<not> gt_zero area \<and>
                gt_zero len \<longrightarrow>
                  b_unit line = Metre \<and> b_quantity line = float_round len 3) \<and>
               (\<not> gt_zero volume \<and> \<not> gt_zero area \<and> \<not> gt_zero len \<longrightarrow>
                  b_unit line = Number \<and>
                  b_quantity line = Finite (of_int (total_count_of items))))"
    unfolding Let_def determine_primary_quantity_def
    by (simp add: py_round_of_int)
  with line show ?thesis by blast
qed
lemma three_walls_totals:
  "total_of q_volume three_walls = Finite 7 \<and> total_of q_area three_walls = Finite 30 \<and>
   total_of q_length three_walls = Finite 15"
  by (simp add: total_of_def py_sum_def three_walls_def wall_record_def or_zero_def
      float_of_real_def float_overflow_def)

lemma three_walls_line_type:
  "create_boq_item ''IfcWall'' three_walls ''type'' = Inr line \<Longrightarrow>
   b_element_type line = ''IfcWall''"
  by (auto simp: create_boq_item_def line_labels_def three_walls_def wall_record_def Let_def)

lemma element_base_IfcWall: "element_base ''IfcWall'' = ''IfcWall''"
  by (simp add: element_base_def)

lemma py_round_7: "py_round 7 3 = 7"
  by (simp add: py_round_def round_half_even_def)

text \<open>
  The three walls, each with a positive area and length too, give a line in cubic metres
  with quantity 7.
\<close>

theorem primary_quantity_priority_witness:
  "\<exists>line. create_boq_item ''IfcWall'' three_walls ''type'' = Inr line \<and>
          b_unit line = CubicMetre \<and> b_quantity line = Finite 7"
proof -
  have ne: "three_walls \<noteq> []" by (simp add: three_walls_def)
  from primary_quantity_priority[OF ne, of "''IfcWall''" "''type''"]
  obtain line where line: "create_boq_item ''IfcWall'' three_walls ''type'' = Inr line"
    and v: "element_base (b_element_type line) \<in> set volume_elements \<and>
            gt_zero (total_of q_volume three_walls) \<longrightarrow>
            b_unit line = CubicMetre \<and>
            b_quantity line = float_round (total_of q_volume three_walls) 3"
    unfolding Let_def by blast
  have "b_element_type line = ''IfcWall''" using line by (rule three_walls_line_type)
  with v have "b_unit line = CubicMetre \<and> b_quantity line = Finite 7"
    by (simp add: element_base_IfcWall volume_elements_def three_walls_totals py_round_7
        gt_zero_def)
  with line show ?thesis by blast
qed

lemma group_append_nonempty: "group_append groups k qty \<noteq> []"
  by (induction groups k qty rule: group_append.induct) auto

lemma group_quantities_nonempty:
  "quantities \<noteq> [] \<Longrightarrow> group_quantities quantities lvl \<noteq> []"
proof -
  have "groups \<noteq> [] \<Longrightarrow>
        foldl (\<lambda>grouped qty. group_append grouped (group_key_of lvl qty) qty) groups qs \<noteq> []"
    for groups qs
    by (induction qs arbitrary: groups) (simp_all add: group_append_nonempty)
  then show "quantities \<noteq> [] \<Longrightarrow> group_quantities quantities lvl \<noteq> []"
    by (cases quantities) (simp_all add: group_quantities_def group_append_nonempty)
qed

lemma create_items_total:
  assumes "\<forall>(k, items) \<in> set groups. items \<noteq> []"
  shows "\<exists>lines. create_items groups lvl = Inr lines \<and> length lines = length groups"
  using assms
proof (induction groups)
  case Nil
  then show ?case by simp
next
  case (Cons g groups)
  obtain k items where g: "g = (k, items)" by (cases g)
  with Cons.prems have "items \<noteq> []" by simp
  then obtain line where "create_boq_item k items lvl = Inr line"
    using create_boq_item_nonempty by blast
  moreover from Cons obtain lines where
    "create_items groups lvl = Inr lines \<and> length lines = length groups"
    by auto
  ultimately show ?case by (simp add: g)
qed

lemma create_boq_item_unnumbered:
  "create_boq_item k items lvl = Inr line \<Longrightarrow> b_item_no line = None"
  by (auto simp: create_boq_item_def Let_def split: sum.splits prod.splits)

lemma create_items_unnumbered:
  "create_items groups lvl = Inr lines \<Longrightarrow> list_all (\<lambda>row. b_item_no row = None) lines"
proof (induction groups arbitrary: lines)
  case Nil
  then show ?case by simp
next
  case (Cons g groups)
  obtain k items where g: "g = (k, items)" by (cases g)
  from Cons.prems obtain line rest where
    "create_boq_item k items lvl = Inr line" "create_items groups lvl = Inr rest"
    "lines = line # rest"
    by (auto simp: g split: sum.splits)
  then show ?case using Cons.IH by (simp add: create_boq_item_unnumbered)
qed

lemma generate_boq_has_item_no:
  assumes "quantities \<noteq> []"
  shows "\<exists>df. generate_boq quantities lvl = Inr df \<and> ''item_no'' \<in> set (df_columns df) \<and>
              df_rows df \<noteq> [] \<and> list_all (\<lambda>row. b_item_no row = None) (df_rows df)"
proof -
  have "\<forall>(k, items) \<in> set (group_quantities quantities lvl). items \<noteq> []"
    using group_quantities_members by blast
  then obtain lines where lines: "create_items (group_quantities quantities lvl) lvl = Inr lines"
    and len: "length lines = length (group_quantities quantities lvl)"
    using create_items_total by blast
  from len assms have ne: "lines \<noteq> []"
    using group_quantities_nonempty by fastforce
  have un: "list_all (\<lambda>row. b_item_no row = None) lines"
    using lines by (rule create_items_unnumbered)
  then have "list_all (\<lambda>row. b_item_no row = None) (sort_key f lines)"
    for f :: "boq_item \<Rightarrow> string list"
    by (simp add: list_all_iff)
  moreover have "sort_key f lines \<noteq> []" for f :: "boq_item \<Rightarrow> string list"
    using ne by (metis length_sort length_0_conv)
  ultimately show ?thesis
    using assms lines ne un
    by (simp add: generate_boq_def Let_def boq_item_keys_def column_order_def)
qed

text \<open>
  Claim C7 (a defect of the code). Every table \<open>generate_boq\<close> builds from at least
  one record already has a column \<open>item_no\<close>, holding \<open>None\<close> in every line, since
  \<open>_create_boq_item\<close> puts that key in each line. \<open>add_item_numbers\<close> inserts a
  column of that label, which raises \<open>ValueError\<close>: no line of a generated table is
  ever numbered by it.
\<close>

theorem add_item_numbers_rejects_generated_boq:
  assumes "quantities \<noteq> []"
  shows "\<exists>df. generate_boq quantities lvl = Inr df \<and>
              list_all (\<lambda>row. b_item_no row = None) (df_rows df) \<and>
              add_item_numbers df = Inl ValueError \<and>
              numbered_boq quantities lvl = Inl ValueError"
proof -
  from assms obtain df where df: "generate_boq quantities lvl = Inr df"
    and col: "''item_no'' \<in> set (df_columns df)" and rows: "df_rows df \<noteq> []"
    and un: "list_all (\<lambda>row. b_item_no row = None) (df_rows df)"
    using generate_boq_has_item_no by blast
  from col have "df_columns df \<noteq> []" by auto
  with col rows have "add_item_numbers df = Inl ValueError"
    by (simp add: add_item_numbers_def df_empty_def df_insert_item_no_def)
  with df un show ?thesis by (simp add: numbered_boq_def)
qed

text \<open>The table of the three walls, grouped by type.\<close>

theorem add_item_numbers_rejects_generated_boq_witness:
  "numbered_boq three_walls ''type'' = Inl ValueError"
  using add_item_numbers_rejects_generated_boq[of three_walls "''type''"]
  by (auto simp: three_walls_def)

text \<open>
  On a table that has no such column yet, the numbers \<open>add_item_numbers\<close> assigns are
  1 to the number of lines, in the order of the lines.
\<close>

lemma numbered_zip:
  "length ns = length rows \<Longrightarrow>
   map b_item_no (map (\<lambda>(i, row). row\<lparr>b_item_no := Some i\<rparr>) (zip ns rows)) = map Some ns"
  by (induction ns rows rule: list_induct2) simp_all

lemma number_rows_item_nos:
  "map b_item_no (number_rows rows) = map Some [1..int (length rows)]"
  unfolding number_rows_def by (rule numbered_zip) simp

lemma add_item_numbers_fresh:
  assumes "''item_no'' \<notin> set (df_columns df)" and "\<not> df_empty df"
  shows "\<exists>numbered. add_item_numbers df = Inr numbered \<and>
           map b_item_no (df_rows numbered) = map Some [1..int (length (df_rows df))]"
  using assms
  by (simp add: add_item_numbers_def df_insert_item_no_def number_rows_item_nos)

text \<open>
  Claim C10. With no records, \<open>generate_boq\<close> returns the empty table for every
  grouping level, without an exception; the summary of the empty table, and of any table
  with no lines, is the empty dictionary.
\<close>

theorem empty_boq:
  "generate_boq [] lvl = Inr empty_frame \<and> df_rows empty_frame = [] \<and>
   get_summary empty_frame = [] \<and> get_summary \<lparr>df_columns = cols, df_rows = []\<rparr> = []"
  by (simp add: generate_boq_def empty_frame_def get_summary_def df_empty_def)

subsection \<open>The rates\<close>

text \<open>The substring test is the one of the specification: \<open>p\<close> occurs in \<open>s\<close>.\<close>

lemma startswith_iff: "startswith s p \<longleftrightarrow> (\<exists>b. s = p @ b)"
  by (induction s p rule: startswith.induct) auto

lemma str_contains_iff: "str_contains p s \<longleftrightarrow> (\<exists>a b. s = a @ p @ b)"
proof (induction s)
  case Nil
  then show ?case by auto
next
  case (Cons c s)
  have "(\<exists>a b. c # s = a @ p @ b) \<longleftrightarrow> (\<exists>b. c # s = p @ b) \<or> (\<exists>a b. s = a @ p @ b)"
  proof
    assume "\<exists>a b. c # s = a @ p @ b"
    then obtain a b where ab: "c # s = a @ p @ b" by blast
    show "(\<exists>b. c # s = p @ b) \<or> (\<exists>a b. s = a @ p @ b)"
    proof (cases a)
      case Nil
      with ab show ?thesis by auto
    next
      case (Cons x a')
      with ab have "s = a' @ p @ b" by simp
      then show ?thesis by blast
    qed
  next
    assume "(\<exists>b. c # s = p @ b) \<or> (\<exists>a b. s = a @ p @ b)"
    then show "\<exists>a b. c # s = a @ p @ b"
    proof
      assume "\<exists>b. c # s = p @ b"
      then obtain b where "c # s = [] @ p @ b" by auto
      then show ?thesis by blast
    next
      assume "\<exists>a b. s = a @ p @ b"
      then obtain a b where "c # s = (c # a) @ p @ b" by auto
      then show ?thesis by blast
    qed
  qed
  then show ?case by (simp add: Cons.IH startswith_iff)
qed

lemma scan_rates_find:
  "scan_rates ml type_rates =
   map_option snd
     (find (\<lambda>(mat_key, rate). str_contains (lower mat_key) ml \<and> mat_key \<noteq> ''default'')
        type_rates)"
  by (induction ml type_rates rule: scan_rates.induct) simp_all

lemma example_rate_1:
  "get_rate example_rates ''IfcWall'' (Some ''Ready Mix Concrete Grade 30'') = 50"
  by code_simp

lemma example_rate_2: "get_rate example_rates ''IfcWall'' (Some ''Steel'') = 10"
  by code_simp

text \<open>
  Claim C3. \<open>get_rate\<close> is 0 for a type that is not in the table, and otherwise the
  rate the priority gives on the entries of the type. On the table of the example,
  \<open>Ready Mix Concrete Grade 30\<close> gets 50, \<open>Steel\<close> gets the default 10, and a type
  that is absent gets 0 for every material.
\<close>

theorem get_rate_priority:
  "get_rate rates element_type material =
     (case map_of rates element_type of
        None \<Rightarrow> 0
      | Some type_rates \<Rightarrow> rate_by_priority type_rates material) \<and>
   get_rate example_rates ''IfcWall'' (Some ''Ready Mix Concrete Grade 30'') = 50 \<and>
   get_rate example_rates ''IfcWall'' (Some ''Steel'') = 10 \<and>
   get_rate example_rates ''IfcSlab'' material = 0"
proof -
  have "get_rate rates element_type material =
     (case map_of rates element_type of
        None \<Rightarrow> 0
      | Some type_rates \<Rightarrow> rate_by_priority type_rates material)"
    by (auto simp: get_rate_def rate_by_priority_def first_material_match_def scan_rates_find
        Let_def split: option.splits)
  moreover have "get_rate example_rates ''IfcSlab'' material = 0"
    by (simp add: get_rate_def example_rates_def)
  ultimately show ?thesis
    by (simp only: example_rate_1 example_rate_2 simp_thms)
qed

subsection \<open>The unit scale factor\<close>

text \<open>
  Claim C5 (a defect of the code). For the SI length unit millimetre (prefix
  \<open>MILLI\<close>, name \<open>METRE\<close>) the factor returned is 1, not 0.001: the loop over
  the named units runs first, an \<open>IfcSIUnit\<close> is a named unit, and its name holds
  \<open>METRE\<close> and not \<open>MILLI\<close>. The loop over the prefixes, which would give 0.001,
  is never reached.
\<close>

theorem millimetre_si_unit_scale_is_one:
  "get_unit_scale_factor mm_reader = Inr 1 \<and>
   scan_si_units [IfcSIUnit ''PLANEANGLEUNIT'' None ''RADIAN'',
                  IfcSIUnit ''LENGTHUNIT'' (Some ''MILLI'') ''METRE''] = Some (1 / 1000)"
  by code_simp

text \<open>For a loaded file the function returns, and the factor is positive.\<close>

lemma scan_named_units_positive: "scan_named_units units = Some f \<Longrightarrow> 0 < f"
  by (induction units) (auto split: option.splits if_splits)

lemma scan_si_units_positive: "scan_si_units units = Some f \<Longrightarrow> 0 < f"
  by (induction units rule: scan_si_units.induct) (auto simp: Let_def split: if_splits)

lemma get_unit_scale_factor_positive:
  assumes "ifc_file self = Some projects"
  shows "case get_unit_scale_factor self of Inl err \<Rightarrow> False | Inr f \<Rightarrow> 0 < f"
  using assms scan_named_units_positive scan_si_units_positive
  by (auto simp: get_unit_scale_factor_def split: option.splits list.splits)

text \<open>Every factor the function returns is at most 1.\<close>

lemma scan_named_units_le_1: "scan_named_units units = Some f \<Longrightarrow> f \<le> 1"
  by (induction units) (auto split: option.splits if_splits)

lemma scan_si_units_le_1: "scan_si_units units = Some f \<Longrightarrow> f \<le> 1"
  by (induction units rule: scan_si_units.induct) (auto simp: Let_def split: if_splits)

lemma get_unit_scale_factor_le_1:
  assumes "get_unit_scale_factor self = Inr f"
  shows "0 < f \<and> f \<le> 1"
  using assms scan_named_units_positive scan_si_units_positive
    scan_named_units_le_1 scan_si_units_le_1
  by (auto simp: get_unit_scale_factor_def split: option.splits list.splits)

end
